theory Spec2Isabelle
  imports Main "HOL-Library.Sublist"
begin

section \<open>Transcript stream extraction (debug\_rag\_agent.py)\<close>

text \<open>
  \<^verbatim>\<open>DebugRAGAgent.run\<close> reads the crew's console output line by line from a pipe and
  forwards the part that follows the final-answer marker:
  \<^verbatim>\<open>
  final_answer_streaming = False
  async for line in read_file:
      if not line:
          break
      if final_answer_streaming:
          if line.endswith("\x1b[00m\n"):
              yield line[:-6]
          else:
              yield line
      if "## Final Answer:" in line:
          final_answer_streaming = True
  \<close>
  A Python string is a \<open>string\<close> here; a line is what the reader hands over, its
  terminating newline included when the producer wrote one.
\<close>

definition ESC :: char where
  "ESC = CHR 0x1B"

definition NL :: char where
  "NL = CHR 0x0A"

definition final_answer_marker :: string where
  "final_answer_marker = ''## Final Answer:''"

definition color_reset_line_end :: string where
  "color_reset_line_end = ESC # ''[00m'' @ [NL]"

text \<open>Python's \<^verbatim>\<open>sub in s\<close> on strings: \<open>sub\<close> occurs somewhere in \<open>s\<close>.\<close>

fun str_in :: "string \<Rightarrow> string \<Rightarrow> bool" where
  "str_in sub [] = (sub = [])"
| "str_in sub (c # cs) = (prefix sub (c # cs) \<or> str_in sub cs)"

text \<open>Python's \<^verbatim>\<open>s.endswith(suf)\<close>.\<close>

definition endswith :: "string \<Rightarrow> string \<Rightarrow> bool" where
  "endswith s suf = (length suf \<le> length s \<and> drop (length s - length suf) s = suf)"

text \<open>Python's \<^verbatim>\<open>s[:-6]\<close>: all but the last six characters, empty when there are fewer.\<close>

definition drop_last6 :: "string \<Rightarrow> string" where
  "drop_last6 s = take (length s - 6) s"

text \<open>
  The loop, with the flag \<^verbatim>\<open>final_answer_streaming\<close> as first argument and the lines
  still to come as second; the result is the sequence of yielded fragments.
\<close>

fun stream_lines :: "bool \<Rightarrow> string list \<Rightarrow> string list" where
  "stream_lines final_answer_streaming [] = []"
| "stream_lines final_answer_streaming (line # rest) =
     (if line = [] then []
      else (if final_answer_streaming
            then [if endswith line color_reset_line_end then drop_last6 line else line]
            else [])
           @ stream_lines (final_answer_streaming \<or> str_in final_answer_marker line) rest)"

definition extract_final_answer :: "string list \<Rightarrow> string list" where
  "extract_final_answer lines = stream_lines False lines"

section \<open>Exceptions and the data of a request\<close>

text \<open>
  What Python raises. \<^verbatim>\<open>ValueError\<close> (raised by \<^verbatim>\<open>_create_chain\<close> itself),
  \<^verbatim>\<open>TypeError\<close> and \<open>Raised\<close> (any other exception a collaborator raises) are
  instances of \<^verbatim>\<open>Exception\<close>; \<^verbatim>\<open>asyncio.CancelledError\<close>,
  \<^verbatim>\<open>KeyboardInterrupt\<close> and \<^verbatim>\<open>SystemExit\<close> derive from \<^verbatim>\<open>BaseException\<close>
  only, so \<^verbatim>\<open>except Exception\<close> does not catch them. \<open>str_exn\<close> is \<^verbatim>\<open>str(e)\<close>.
\<close>

datatype exn =
    ValueError string
  | TypeError string
  | Raised string
  | CancelledError
  | KeyboardInterrupt
  | SystemExit string

fun str_exn :: "exn \<Rightarrow> string" where
  "str_exn (ValueError s) = s"
| "str_exn (TypeError s) = s"
| "str_exn (Raised s) = s"
| "str_exn CancelledError = []"
| "str_exn KeyboardInterrupt = []"
| "str_exn (SystemExit s) = s"

text \<open>\<^verbatim>\<open>isinstance(e, Exception)\<close>\<close>

fun is_Exception :: "exn \<Rightarrow> bool" where
  "is_Exception (ValueError s) = True"
| "is_Exception (TypeError s) = True"
| "is_Exception (Raised s) = True"
| "is_Exception CancelledError = False"
| "is_Exception KeyboardInterrupt = False"
| "is_Exception (SystemExit s) = False"

record NodeContext =
  node_id :: string

record NodeResponse =
  node_name :: string
  docstring :: string
  code :: string

record RAGResponse =
  citations :: "string list"
  response :: "NodeResponse list"

section \<open>The tool-agent runner (debug\_rag\_agent.py)\<close>

text \<open>
  \<^verbatim>\<open>DebugRAGAgent.run\<close> up to and including the streaming loop. The collaborators are
  the fields of \<open>runner_env\<close>: the batched lookup
  \<^verbatim>\<open>GetCodeFromMultipleNodeIdsTool(...).run_multiple\<close> with its result or exception,
  \<^verbatim>\<open>create_agents\<close> and \<^verbatim>\<open>create_tasks\<close> (both only call collaborators, so
  only whether they raise is kept), the lines that the reader of the pipe delivers, and
  \<^verbatim>\<open>CodeProviderService(sql_db).get_project_structure_async\<close>, which
  \<^verbatim>\<open>kickoff_debug_rag_agent\<close> awaits. A looked-up code body is a \<open>string\<close>. The calls are recorded in order of execution:
  \<^verbatim>\<open>
  code_results = []
  if len(node_ids) > 0:
      code_results = await GetCodeFromMultipleNodeIdsTool(
          self.sql_db, self.user_id
      ).run_multiple(project_id, [node.node_id for node in node_ids])
  debug_agent = await self.create_agents()
  debug_task = await self.create_tasks(query, project_id, chat_history, node_ids,
      file_structure, code_results, debug_agent)
  \<close>
\<close>

record runner_env =
  run_multiple :: "string \<Rightarrow> string list \<Rightarrow> exn + string list"
  create_agents_raises :: "exn option"
  create_tasks_raises :: "exn option"
  transcript :: "string list"
  get_project_structure_async :: "string \<Rightarrow> exn + string"

datatype runner_event =
    RunMultiple string "string list"
  | CreateAgents
  | CreateTasks string string "string list" "NodeContext list" string "string list"
  | Emit string

definition resolve_code_results ::
  "runner_env \<Rightarrow> string \<Rightarrow> NodeContext list \<Rightarrow> runner_event list \<times> (exn + string list)" where
  "resolve_code_results renv project_id node_ids =
     (if length node_ids > 0
      then ([RunMultiple project_id (map node_id node_ids)],
            run_multiple renv project_id (map node_id node_ids))
      else ([], Inr []))"

definition DebugRAGAgent_run ::
  "runner_env \<Rightarrow> string \<Rightarrow> string \<Rightarrow> string list \<Rightarrow> NodeContext list \<Rightarrow> string
     \<Rightarrow> runner_event list \<times> exn option" where
  "DebugRAGAgent_run renv query project_id chat_history node_ids file_structure =
     (case resolve_code_results renv project_id node_ids of
        (evs, Inl e) \<Rightarrow> (evs, Some e)
      | (evs, Inr code_results) \<Rightarrow>
          (case create_agents_raises renv of
             Some e \<Rightarrow> (evs @ [CreateAgents], Some e)
           | None \<Rightarrow>
               (let task = CreateTasks query project_id chat_history node_ids
                             file_structure code_results
                in case create_tasks_raises renv of
                     Some e \<Rightarrow> (evs @ [CreateAgents, task], Some e)
                   | None \<Rightarrow>
                       (evs @ [CreateAgents, task]
                          @ map Emit (extract_final_answer (transcript renv)),
                        None))))"

text \<open>The lookups made during a run, and the \<^verbatim>\<open>code_results\<close> handed to the task.\<close>

fun lookups :: "runner_event list \<Rightarrow> (string \<times> string list) list" where
  "lookups [] = []"
| "lookups (RunMultiple p ids # evs) = (p, ids) # lookups evs"
| "lookups (_ # evs) = lookups evs"

fun task_code_results :: "runner_event list \<Rightarrow> string list list" where
  "task_code_results [] = []"
| "task_code_results (CreateTasks q p h ns f code_results # evs) =
     code_results # task_code_results evs"
| "task_code_results (_ # evs) = task_code_results evs"

subsection \<open>kickoff\_debug\_rag\_agent and what awaiting it gives\<close>

text \<open>
  \<^verbatim>\<open>
  async def kickoff_debug_rag_agent(query, project_id, chat_history, node_ids, sql_db,
                                    llm, mini_llm, user_id) -> AsyncGenerator[str, None]:
      ...
      debug_agent = DebugRAGAgent(sql_db, crew_ai_llm, crew_ai_mini_llm, user_id)
      file_structure = await CodeProviderService(sql_db).get_project_structure_async(
          project_id)
      async for chunk in debug_agent.run(
          query, project_id, chat_history, node_ids, file_structure):
          yield chunk
  \<close>
  The body contains \<^verbatim>\<open>yield\<close>, so this is an async generator function: a call runs
  none of the body and returns an async generator object, which would produce the body's
  events and items once iterated. What a call of an \<^verbatim>\<open>async def\<close> function returns is
  either a coroutine, with the result or exception that awaiting it gives, or an async
  generator. \<^verbatim>\<open>await\<close> on an async generator raises the \<^verbatim>\<open>TypeError\<close>
  \<^verbatim>\<open>object async_generator can't be used in 'await' expression\<close>.
\<close>

datatype 'a awaitable =
    Coroutine "exn + 'a"
  | AsyncGenerator "runner_event list \<times> exn option"

definition kickoff_debug_rag_agent ::
  "runner_env \<Rightarrow> string \<Rightarrow> string \<Rightarrow> string list \<Rightarrow> NodeContext list \<Rightarrow> 'a awaitable" where
  "kickoff_debug_rag_agent renv query project_id chat_history node_ids =
     AsyncGenerator
       (case get_project_structure_async renv project_id of
          Inl e \<Rightarrow> ([], Some e)
        | Inr file_structure \<Rightarrow>
            DebugRAGAgent_run renv query project_id chat_history node_ids file_structure)"

definition await_async_generator_error :: string where
  "await_async_generator_error =
     ''object async_generator can'' @ [CHR 0x27] @ ''t be used in '' @ [CHR 0x27]
       @ ''await'' @ [CHR 0x27] @ '' expression''"

fun await :: "'a awaitable \<Rightarrow> exn + 'a" where
  "await (Coroutine r) = r"
| "await (AsyncGenerator g) = Inl (TypeError await_async_generator_error)"

section \<open>The chat agents (debugging\_chat\_agent.py, code\_changes\_chat\_agent.py)\<close>

subsection \<open>History, classification, results of the tool agents\<close>

text \<open>
  Modelled from the spec: the enumeration \<^verbatim>\<open>ClassificationResult\<close> is imported from
  \<^verbatim>\<open>classification_types\<close>, which is not among the sources; the spec gives it the two
  values below. The code only compares with \<^verbatim>\<open>AGENT_REQUIRED\<close>.
\<close>

datatype ClassificationResult = AGENT_REQUIRED | NO_AGENT

text \<open>
  A message of the session history with its \<^verbatim>\<open>content\<close>, and an entry as the history
  store returns it: a bare scalar (\<^verbatim>\<open>str\<close>, \<^verbatim>\<open>int\<close>, \<^verbatim>\<open>float\<close>; kept as its
  \<^verbatim>\<open>str(msg)\<close>) or a message object.
\<close>

datatype message =
    HumanMessage (content: string)
  | AIMessage (content: string)
  | SystemMessage (content: string)

datatype history_entry = Scalar string | Msg message

fun validate_entry :: "history_entry \<Rightarrow> message" where
  "validate_entry (Scalar s) = HumanMessage s"
| "validate_entry (Msg m) = m"

fun isinstance_HumanMessage :: "message \<Rightarrow> bool" where
  "isinstance_HumanMessage (HumanMessage _) = True"
| "isinstance_HumanMessage _ = False"

text \<open>
  The value that \<^verbatim>\<open>DebuggingChatAgent.run\<close> expects from its tool agent, as it reads
  it: \<^verbatim>\<open>.pydantic\<close> (\<^verbatim>\<open>None\<close> or a \<^verbatim>\<open>RAGResponse\<close>) and \<^verbatim>\<open>.raw\<close>; and the
  same for the value of \<^verbatim>\<open>await kickoff_blast_radius_agent(...)\<close>, whose structured
  response is kept as the text that the f-string renders.
\<close>

record rag_result =
  pydantic :: "RAGResponse option"
  raw :: string

record blast_radius_response =
  blast_citations :: "string list"
  blast_response :: string

record blast_radius_result =
  blast_pydantic :: "blast_radius_response option"
  blast_raw :: string

text \<open>
  The content of a persisted or yielded message: text, or the list of
  \<^verbatim>\<open>node.model_dump()\<close> dictionaries of the debugging agent's structured result.
\<close>

datatype msg_content = Text string | Nodes "NodeResponse list"

text \<open>A chunk of the LLM stream: \<^verbatim>\<open>chunk.content\<close> when it has one, else \<^verbatim>\<open>str(chunk)\<close>.\<close>

datatype llm_chunk = WithContent string | Other string

fun chunk_content :: "llm_chunk \<Rightarrow> string" where
  "chunk_content (WithContent c) = c"
| "chunk_content (Other s) = s"

datatype chain = Chain string string

record chain_inputs =
  history :: "message list"
  tool_results :: "msg_content list"
  input :: string

subsection \<open>Collaborators\<close>

text \<open>
  Every collaborator that \<^verbatim>\<open>run\<close> awaits or calls is a field of the environment, with
  its result or the exception it raises:
  \<^item> \<open>get_prompts agent user_id\<close>: the texts of the \<^verbatim>\<open>SYSTEM\<close> and \<^verbatim>\<open>HUMAN\<close>
    prompts found by \<^verbatim>\<open>_get_prompts\<close> (\<open>None\<close> for a missing one);
  \<^item> \<open>get_session_history user_id conversation_id\<close>;
  \<^item> \<open>classification_chain user_id query history\<close>: the classification parsed from the
    answer of the routing LLM to the inputs \<^verbatim>\<open>{"query": ..., "history": ...}\<close>;
  \<^item> \<open>runner\<close>: the collaborators of \<^verbatim>\<open>kickoff_debug_rag_agent\<close>, which is
    defined above from its source;
  \<^item> \<open>kickoff_blast_radius_agent\<close>, which is not among the sources: the value of the
    awaited call, or the exception that awaiting it raises;
  \<^item> \<open>format_citations\<close> of \<^verbatim>\<open>AgentsService\<close>, a pure function;
  \<^item> \<open>astream chain inputs\<close>: the chunks the chain emits, and the exception that ends
    the stream after them, if any;
  \<^item> \<open>add_message_chunk_raises\<close>, \<open>flush_message_buffer_raises\<close>: whether the call to
    the history manager raises.
  Logging and timing leave no trace in the model.
\<close>

record env =
  get_prompts :: "string \<Rightarrow> string \<Rightarrow> exn + (string option \<times> string option)"
  get_session_history :: "string \<Rightarrow> string \<Rightarrow> exn + history_entry list"
  classification_chain :: "string \<Rightarrow> string \<Rightarrow> string list \<Rightarrow> exn + ClassificationResult"
  runner :: runner_env
  kickoff_blast_radius_agent ::
    "string \<Rightarrow> string \<Rightarrow> NodeContext list \<Rightarrow> exn + blast_radius_result"
  format_citations :: "string list \<Rightarrow> string list"
  astream :: "chain \<Rightarrow> chain_inputs \<Rightarrow> llm_chunk list \<times> exn option"
  add_message_chunk_raises :: "msg_content \<Rightarrow> string list option \<Rightarrow> exn option"
  flush_message_buffer_raises :: "exn option"

subsection \<open>What a run does: calls to the history manager and yields\<close>

text \<open>
  \<^verbatim>\<open>run\<close> is an async generator of \<^verbatim>\<open>str\<close>. An item is kept in structured form:
  a chunk \<^verbatim>\<open>{"citations": ..., "message": ...}\<close> before \<^verbatim>\<open>json.dumps\<close>, or the
  text of the exception before it is put behind \<^verbatim>\<open>An error occurred: \<close>; \<open>wire\<close>
  below is the string the caller receives. The events of a run are its calls
  \<^verbatim>\<open>add_message_chunk(conversation_id, content, AI_GENERATED, citations=...)\<close> and
  \<^verbatim>\<open>flush_message_buffer(conversation_id, AI_GENERATED)\<close> and its yields, in order.
\<close>

datatype item = Chunk "string list" msg_content | ErrorText string

datatype event =
    AddMessageChunk string msg_content "string list option"
  | FlushMessageBuffer string
  | Yield item

record outcome =
  self_chain :: "chain option"
  trace :: "event list"
  raised :: "exn option"

subsection \<open>Building the chain and classifying the query\<close>

text \<open>
  \<^verbatim>\<open>
  system_prompt = prompts.get(PromptType.SYSTEM.value)
  human_prompt = prompts.get(PromptType.HUMAN.value)
  if not system_prompt or not human_prompt:
      raise ValueError("Required prompts not found for DEBUGGING_AGENT")
  \<close>
  The two agents differ in the key of the agent only.
\<close>

definition create_chain :: "env \<Rightarrow> string \<Rightarrow> string \<Rightarrow> exn + chain" where
  "create_chain env agent user_id =
     (case get_prompts env agent user_id of
        Inl e \<Rightarrow> Inl e
      | Inr (Some system_prompt, Some human_prompt) \<Rightarrow> Inr (Chain system_prompt human_prompt)
      | Inr _ \<Rightarrow> Inl (ValueError (''Required prompts not found for '' @ agent)))"

text \<open>\<^verbatim>\<open>if not self.chain: self.chain = await self._create_chain(user_id)\<close>\<close>

definition ensure_chain :: "env \<Rightarrow> string \<Rightarrow> chain option \<Rightarrow> string \<Rightarrow> exn + chain" where
  "ensure_chain env agent chain0 user_id =
     (case chain0 of Some c \<Rightarrow> Inr c | None \<Rightarrow> create_chain env agent user_id)"

text \<open>Python's \<^verbatim>\<open>xs[-5:]\<close>: the last five elements, all of them when there are fewer.\<close>

definition last5 :: "'a list \<Rightarrow> 'a list" where
  "last5 xs = drop (length xs - 5) xs"

text \<open>
  \<^verbatim>\<open>inputs = {"query": query, "history": [msg.content for msg in history[-5:]]}\<close>,
  the same line in both agents.
\<close>

definition classification_inputs :: "string \<Rightarrow> message list \<Rightarrow> string \<times> string list" where
  "classification_inputs query hist = (query, map content (last5 hist))"

definition classify_query ::
  "env \<Rightarrow> string \<Rightarrow> message list \<Rightarrow> string \<Rightarrow> exn + ClassificationResult" where
  "classify_query env query hist user_id =
     (case classification_inputs query hist of
        (q, h) \<Rightarrow> classification_chain env user_id q h)"

text \<open>
  The first statements of both \<^verbatim>\<open>try\<close> bodies, the same up to the agent's key:
  \<^verbatim>\<open>
  if not self.chain:
      self.chain = await self._create_chain(user_id)
  history = self.history_manager.get_session_history(user_id, conversation_id)
  validated_history = [
      (HumanMessage(content=str(msg)) if isinstance(msg, (str, int, float)) else msg)
      for msg in history
  ]
  classification = await self._classify_query(query, validated_history, user_id)
  \<close>
  The result is \<^verbatim>\<open>self.chain\<close> with the exception, when one of them raises, and the
  chain, \<^verbatim>\<open>validated_history\<close> and \<^verbatim>\<open>classification\<close> otherwise.
\<close>

definition load_and_classify ::
  "env \<Rightarrow> string \<Rightarrow> chain option \<Rightarrow> string \<Rightarrow> string \<Rightarrow> string
     \<Rightarrow> (chain option \<times> exn) + (chain \<times> message list \<times> ClassificationResult)" where
  "load_and_classify env agent chain0 query user_id conversation_id =
     (case ensure_chain env agent chain0 user_id of
        Inl e \<Rightarrow> Inl (chain0, e)
      | Inr chain \<Rightarrow>
          (case get_session_history env user_id conversation_id of
             Inl e \<Rightarrow> Inl (Some chain, e)
           | Inr hist \<Rightarrow>
               (let validated_history = map validate_entry hist
                in case classify_query env query validated_history user_id of
                     Inl e \<Rightarrow> Inl (Some chain, e)
                   | Inr classification \<Rightarrow>
                       Inr (chain, validated_history, classification))))"

subsection \<open>The streaming loop\<close>

text \<open>
  \<^verbatim>\<open>
  async for chunk in self.chain.astream(inputs):
      content = chunk.content if hasattr(chunk, "content") else str(chunk)
      full_response += content
      self.history_manager.add_message_chunk(
          conversation_id, content, MessageType.AI_GENERATED, citations=...)
      yield json.dumps({"citations": ..., "message": content})
  \<close>
  Both agents have this loop; they differ in the two citation arguments, \<open>persisted\<close>
  (the keyword argument of \<^verbatim>\<open>add_message_chunk\<close>) and \<open>yielded\<close>. \<open>stream_end\<close> is
  the exception that the stream raises once \<open>chunks\<close> are consumed, if any.
\<close>

fun stream_loop ::
  "env \<Rightarrow> string \<Rightarrow> string list option \<Rightarrow> string list \<Rightarrow> llm_chunk list \<Rightarrow> exn option
     \<Rightarrow> event list \<times> exn option" where
  "stream_loop env conversation_id persisted yielded [] stream_end = ([], stream_end)"
| "stream_loop env conversation_id persisted yielded (chunk # chunks) stream_end =
     (let content = Text (chunk_content chunk);
          add = AddMessageChunk conversation_id content persisted
      in case add_message_chunk_raises env content persisted of
           Some e \<Rightarrow> ([add], Some e)
         | None \<Rightarrow>
             (case stream_loop env conversation_id persisted yielded chunks stream_end of
                (evs, r) \<Rightarrow> (add # Yield (Chunk yielded content) # evs, r)))"

text \<open>
  The end of both \<^verbatim>\<open>try\<close> bodies: when the loop ended without an exception,
  \<^verbatim>\<open>flush_message_buffer\<close> is called.
\<close>

definition stream_and_flush ::
  "env \<Rightarrow> string \<Rightarrow> string list option \<Rightarrow> string list \<Rightarrow> llm_chunk list \<times> exn option
     \<Rightarrow> event list \<times> exn option" where
  "stream_and_flush env conversation_id persisted yielded stream =
     (case stream_loop env conversation_id persisted yielded (fst stream) (snd stream) of
        (evs, Some e) \<Rightarrow> (evs, Some e)
      | (evs, None) \<Rightarrow>
          (evs @ [FlushMessageBuffer conversation_id], flush_message_buffer_raises env))"

text \<open>
  \<^verbatim>\<open>except Exception as e: ... yield f"An error occurred: {str(e)}"\<close>: the handler that
  closes both \<^verbatim>\<open>run\<close> generators. An instance of \<^verbatim>\<open>Exception\<close> is caught, logged
  and answered with one yield; anything else that the body raises leaves \<^verbatim>\<open>run\<close> and
  reaches the caller, and nothing is yielded for it.
\<close>

definition handle_exception :: "outcome \<Rightarrow> outcome" where
  "handle_exception body =
     (case raised body of
        None \<Rightarrow> body
      | Some e \<Rightarrow>
          if is_Exception e
          then body\<lparr>trace := trace body @ [Yield (ErrorText (str_exn e))], raised := None\<rparr>
          else body)"

subsection \<open>DebuggingChatAgent.run\<close>

text \<open>
  The statements of the branch \<^verbatim>\<open>if classification == ClassificationResult.AGENT_REQUIRED\<close>
  that follow the \<^verbatim>\<open>await\<close>, for a value \<^verbatim>\<open>rag_result\<close>: it is persisted, flushed
  and yielded as one chunk, with the citations as they are in it.
  \<^verbatim>\<open>
  if rag_result.pydantic:
      response = rag_result.pydantic.response
      citations = rag_result.pydantic.citations
      result = [node.model_dump() for node in response]
  else:
      result = rag_result.raw
      citations = []
  tool_results = [SystemMessage(content=result)]
  self.history_manager.add_message_chunk(
      conversation_id, tool_results[0].content, MessageType.AI_GENERATED,
      citations=citations)
  self.history_manager.flush_message_buffer(conversation_id, MessageType.AI_GENERATED)
  yield json.dumps({"citations": citations, "message": result})
  \<close>
  The result is the variables \<^verbatim>\<open>tool_results\<close> and \<^verbatim>\<open>citations\<close> as the statements
  leave them, their events, and the exception that ended them, if any.
\<close>

definition debugging_agent_result ::
  "env \<Rightarrow> string \<Rightarrow> rag_result
     \<Rightarrow> msg_content list \<times> string list \<times> event list \<times> exn option" where
  "debugging_agent_result env conversation_id rag =
     (let result = (case pydantic rag of
                      Some p \<Rightarrow> Nodes (response p)
                    | None \<Rightarrow> Text (raw rag));
          cits = (case pydantic rag of Some p \<Rightarrow> citations p | None \<Rightarrow> []);
          add = AddMessageChunk conversation_id result (Some cits);
          flush = FlushMessageBuffer conversation_id
      in case add_message_chunk_raises env result (Some cits) of
           Some e \<Rightarrow> ([result], cits, [add], Some e)
         | None \<Rightarrow>
             (case flush_message_buffer_raises env of
                Some e \<Rightarrow> ([result], cits, [add, flush], Some e)
              | None \<Rightarrow>
                  ([result], cits, [add, flush, Yield (Chunk cits result)], None)))"

text \<open>
  The whole branch: \<^verbatim>\<open>rag_result = await kickoff_debug_rag_agent(query, project_id,
  [msg.content for msg in validated_history if isinstance(msg, HumanMessage)], node_ids,
  ...)\<close>, then the statements above.
\<close>

definition debugging_agent_branch ::
  "env \<Rightarrow> string \<Rightarrow> string \<Rightarrow> message list \<Rightarrow> NodeContext list \<Rightarrow> string
     \<Rightarrow> msg_content list \<times> string list \<times> event list \<times> exn option" where
  "debugging_agent_branch env query project_id validated_history node_ids conversation_id =
     (case await (kickoff_debug_rag_agent (runner env) query project_id
                    (map content (filter isinstance_HumanMessage validated_history))
                    node_ids) of
        Inl e \<Rightarrow> ([], [], [], Some e)
      | Inr rag \<Rightarrow> debugging_agent_result env conversation_id rag)"

text \<open>
  The branch \<^verbatim>\<open>if classification != ClassificationResult.AGENT_REQUIRED\<close>:
  \<^verbatim>\<open>format_citations\<close> is applied here, then the chain is streamed.
\<close>

definition full_query :: "string \<Rightarrow> string \<Rightarrow> string \<Rightarrow> string \<Rightarrow> string" where
  "full_query query project_id logs stacktrace =
     ''Query: '' @ query @ [NL] @ ''Project ID: '' @ project_id @ [NL]
       @ ''Logs: '' @ logs @ [NL] @ ''Stacktrace: '' @ stacktrace"

definition debugging_direct_branch ::
  "env \<Rightarrow> chain \<Rightarrow> string \<Rightarrow> string \<Rightarrow> message list \<Rightarrow> string \<Rightarrow> string \<Rightarrow> string
     \<Rightarrow> msg_content list \<Rightarrow> string list \<Rightarrow> event list \<times> exn option" where
  "debugging_direct_branch env chain query project_id validated_history conversation_id
       logs stacktrace tool_results0 citations0 =
     (let inputs = \<lparr>history = validated_history, tool_results = tool_results0,
                    input = full_query query project_id logs stacktrace\<rparr>;
          cits = format_citations env citations0
      in stream_and_flush env conversation_id (Some cits) cits (astream env chain inputs))"

text \<open>The body of the \<^verbatim>\<open>try\<close>, with the two \<^verbatim>\<open>if\<close> statements one after the other.\<close>

definition DebuggingChatAgent_try ::
  "env \<Rightarrow> chain option \<Rightarrow> string \<Rightarrow> string \<Rightarrow> string \<Rightarrow> string \<Rightarrow> NodeContext list
     \<Rightarrow> string \<Rightarrow> string \<Rightarrow> outcome" where
  "DebuggingChatAgent_try env chain0 query project_id user_id conversation_id node_ids
       logs stacktrace =
     (case load_and_classify env ''DEBUGGING_AGENT'' chain0 query user_id conversation_id of
        Inl (chain1, e) \<Rightarrow> \<lparr>self_chain = chain1, trace = [], raised = Some e\<rparr>
      | Inr (chain, validated_history, classification) \<Rightarrow>
          (case (if classification = AGENT_REQUIRED
                 then debugging_agent_branch env query project_id validated_history
                        node_ids conversation_id
                 else ([], [], [], None)) of
             (tool_results1, citations1, evs1, Some e) \<Rightarrow>
               \<lparr>self_chain = Some chain, trace = evs1, raised = Some e\<rparr>
           | (tool_results1, citations1, evs1, None) \<Rightarrow>
               (case (if classification \<noteq> AGENT_REQUIRED
                      then debugging_direct_branch env chain query project_id
                             validated_history conversation_id logs stacktrace
                             tool_results1 citations1
                      else ([], None)) of
                  (evs2, r) \<Rightarrow>
                    \<lparr>self_chain = Some chain, trace = evs1 @ evs2, raised = r\<rparr>)))"

definition DebuggingChatAgent_run ::
  "env \<Rightarrow> chain option \<Rightarrow> string \<Rightarrow> string \<Rightarrow> string \<Rightarrow> string \<Rightarrow> NodeContext list
     \<Rightarrow> string \<Rightarrow> string \<Rightarrow> outcome" where
  "DebuggingChatAgent_run env chain0 query project_id user_id conversation_id node_ids
       logs stacktrace =
     handle_exception
       (DebuggingChatAgent_try env chain0 query project_id user_id conversation_id node_ids
          logs stacktrace)"

subsection \<open>CodeChangesChatAgent.run\<close>

text \<open>
  The branch \<^verbatim>\<open>if classification == ClassificationResult.AGENT_REQUIRED\<close> only
  prepares \<^verbatim>\<open>tool_results\<close> and \<^verbatim>\<open>citations\<close>; nothing is persisted or yielded in
  it.
\<close>

definition code_changes_agent_branch ::
  "env \<Rightarrow> string \<Rightarrow> string \<Rightarrow> NodeContext list
     \<Rightarrow> msg_content list \<times> string list \<times> event list \<times> exn option" where
  "code_changes_agent_branch env query project_id node_ids =
     (case kickoff_blast_radius_agent env query project_id node_ids of
        Inl e \<Rightarrow> ([], [], [], Some e)
      | Inr res \<Rightarrow>
          (let cits = (case blast_pydantic res of
                         Some p \<Rightarrow> blast_citations p
                       | None \<Rightarrow> []);
               resp = (case blast_pydantic res of
                         Some p \<Rightarrow> blast_response p
                       | None \<Rightarrow> blast_raw res)
           in ([Text (''Blast Radius Agent result: '' @ resp)], cits, [], None)))"

text \<open>
  The rest of the \<^verbatim>\<open>try\<close> runs for either classification: \<^verbatim>\<open>format_citations\<close>,
  then the loop, which persists \<^verbatim>\<open>citations\<close> or \<^verbatim>\<open>None\<close> and yields
  \<^verbatim>\<open>citations\<close> or \<^verbatim>\<open>[]\<close> according to the classification.
\<close>

definition code_changes_stream ::
  "env \<Rightarrow> chain \<Rightarrow> string \<Rightarrow> message list \<Rightarrow> string \<Rightarrow> ClassificationResult
     \<Rightarrow> msg_content list \<Rightarrow> string list \<Rightarrow> event list \<times> exn option" where
  "code_changes_stream env chain query validated_history conversation_id classification
       tool_results0 citations0 =
     (let inputs = \<lparr>history = validated_history, tool_results = tool_results0,
                    input = query\<rparr>;
          cits = format_citations env citations0
      in stream_and_flush env conversation_id
           (if classification = AGENT_REQUIRED then Some cits else None)
           (if classification = AGENT_REQUIRED then cits else [])
           (astream env chain inputs))"

definition CodeChangesChatAgent_try ::
  "env \<Rightarrow> chain option \<Rightarrow> string \<Rightarrow> string \<Rightarrow> string \<Rightarrow> string \<Rightarrow> NodeContext list
     \<Rightarrow> outcome" where
  "CodeChangesChatAgent_try env chain0 query project_id user_id conversation_id node_ids =
     (case load_and_classify env ''CODE_CHANGES_AGENT'' chain0 query user_id
             conversation_id of
        Inl (chain1, e) \<Rightarrow> \<lparr>self_chain = chain1, trace = [], raised = Some e\<rparr>
      | Inr (chain, validated_history, classification) \<Rightarrow>
          (case (if classification = AGENT_REQUIRED
                 then code_changes_agent_branch env query project_id node_ids
                 else ([], [], [], None)) of
             (tool_results1, citations1, evs1, Some e) \<Rightarrow>
               \<lparr>self_chain = Some chain, trace = evs1, raised = Some e\<rparr>
           | (tool_results1, citations1, evs1, None) \<Rightarrow>
               (case code_changes_stream env chain query validated_history
                       conversation_id classification tool_results1 citations1 of
                  (evs2, r) \<Rightarrow>
                    \<lparr>self_chain = Some chain, trace = evs1 @ evs2, raised = r\<rparr>)))"

definition CodeChangesChatAgent_run ::
  "env \<Rightarrow> chain option \<Rightarrow> string \<Rightarrow> string \<Rightarrow> string \<Rightarrow> string \<Rightarrow> NodeContext list
     \<Rightarrow> outcome" where
  "CodeChangesChatAgent_run env chain0 query project_id user_id conversation_id node_ids =
     handle_exception
       (CodeChangesChatAgent_try env chain0 query project_id user_id conversation_id
          node_ids)"

subsection \<open>Reading a trace\<close>

text \<open>The items yielded, in order; the chunks among them, as citations and message.\<close>

fun yields :: "event list \<Rightarrow> item list" where
  "yields [] = []"
| "yields (Yield i # evs) = i # yields evs"
| "yields (_ # evs) = yields evs"

fun chunks_of :: "item list \<Rightarrow> (string list \<times> msg_content) list" where
  "chunks_of [] = []"
| "chunks_of (Chunk c m # is) = (c, m) # chunks_of is"
| "chunks_of (ErrorText _ # is) = chunks_of is"

text \<open>The calls of \<^verbatim>\<open>add_message_chunk\<close>, as content and citations argument.\<close>

fun adds :: "event list \<Rightarrow> (msg_content \<times> string list option) list" where
  "adds [] = []"
| "adds (AddMessageChunk cid c k # evs) = (c, k) # adds evs"
| "adds (_ # evs) = adds evs"

fun flushes :: "event list \<Rightarrow> nat" where
  "flushes [] = 0"
| "flushes (FlushMessageBuffer cid # evs) = Suc (flushes evs)"
| "flushes (_ # evs) = flushes evs"

text \<open>
  Write-then-notify: going through the trace, every yielded chunk is the oldest content
  passed to \<^verbatim>\<open>add_message_chunk\<close> that has not been yielded yet. \<open>pending\<close> holds the
  contents written and not yet yielded.
\<close>

fun write_then_notify :: "msg_content list \<Rightarrow> event list \<Rightarrow> bool" where
  "write_then_notify pending [] = True"
| "write_then_notify pending (AddMessageChunk cid c k # evs) =
     write_then_notify (pending @ [c]) evs"
| "write_then_notify pending (Yield (Chunk c m) # evs) =
     (case pending of
        [] \<Rightarrow> False
      | p # ps \<Rightarrow> p = m \<and> write_then_notify ps evs)"
| "write_then_notify pending (_ # evs) = write_then_notify pending evs"

text \<open>The text of a message of the LLM stream.\<close>

fun text_of :: "msg_content \<Rightarrow> string" where
  "text_of (Text s) = s"
| "text_of (Nodes ns) = []"

text \<open>
  What holds of the events of every \<^verbatim>\<open>try\<close> body, with the exception that ended it
  (if any): it yields chunks only, it writes before it notifies, and when it ends without
  an exception the contents written are the messages yielded.
\<close>

fun is_chunk :: "item \<Rightarrow> bool" where
  "is_chunk (Chunk c m) = True"
| "is_chunk (ErrorText s) = False"

definition well_formed :: "event list \<times> exn option \<Rightarrow> bool" where
  "well_formed b =
     (list_all is_chunk (yields (fst b)) \<and> write_then_notify [] (fst b)
      \<and> (snd b = None \<longrightarrow> map fst (adds (fst b)) = map snd (chunks_of (yields (fst b)))))"

subsection \<open>The strings on the wire\<close>

text \<open>
  \<^verbatim>\<open>json.dumps\<close> with its defaults (\<^verbatim>\<open>ensure_ascii=True\<close>, separators
  \<^verbatim>\<open>", "\<close> and \<^verbatim>\<open>": "\<close>), for the values that \<^verbatim>\<open>run\<close> passes to it: a
  dictionary with the keys \<^verbatim>\<open>citations\<close> and \<^verbatim>\<open>message\<close>, a list of strings, a
  string, a list of \<^verbatim>\<open>NodeResponse\<close> dictionaries. A character of a \<open>string\<close> stands
  for the code point of the same number, so the strings covered are those of code points
  below 256.
\<close>

definition DQ :: char where
  "DQ = CHR 0x22"

definition BSL :: char where
  "BSL = CHR 0x5C"

definition hex_digit :: "nat \<Rightarrow> char" where
  "hex_digit n = ''0123456789abcdef'' ! (n mod 16)"

definition json_escape_char :: "char \<Rightarrow> string" where
  "json_escape_char c =
     (if c = DQ then [BSL, DQ]
      else if c = BSL then [BSL, BSL]
      else if c = NL then [BSL, CHR ''n'']
      else if c = CHR 0x0D then [BSL, CHR ''r'']
      else if c = CHR 0x09 then [BSL, CHR ''t'']
      else if c = CHR 0x08 then [BSL, CHR ''b'']
      else if c = CHR 0x0C then [BSL, CHR ''f'']
      else if (of_char c :: nat) < 32 \<or> 126 < (of_char c :: nat)
      then [BSL, CHR ''u'', CHR ''0'', CHR ''0'',
            hex_digit (of_char c div 16), hex_digit (of_char c)]
      else [c])"

definition json_str :: "string \<Rightarrow> string" where
  "json_str s = DQ # concat (map json_escape_char s) @ [DQ]"

fun join :: "'a list \<Rightarrow> 'a list list \<Rightarrow> 'a list" where
  "join sep [] = []"
| "join sep [x] = x"
| "join sep (x # y # ys) = x @ sep @ join sep (y # ys)"

definition json_list :: "string list \<Rightarrow> string" where
  "json_list xs = ''['' @ join '', '' xs @ '']''"

definition json_node :: "NodeResponse \<Rightarrow> string" where
  "json_node n =
     ''{'' @ json_str ''node_name'' @ '': '' @ json_str (node_name n) @ '', ''
       @ json_str ''docstring'' @ '': '' @ json_str (docstring n) @ '', ''
       @ json_str ''code'' @ '': '' @ json_str (code n) @ ''}''"

fun json_content :: "msg_content \<Rightarrow> string" where
  "json_content (Text s) = json_str s"
| "json_content (Nodes ns) = json_list (map json_node ns)"

definition json_dumps_chunk :: "string list \<Rightarrow> msg_content \<Rightarrow> string" where
  "json_dumps_chunk cits msg =
     ''{'' @ json_str ''citations'' @ '': '' @ json_list (map json_str cits) @ '', ''
       @ json_str ''message'' @ '': '' @ json_content msg @ ''}''"

text \<open>The string that the caller receives for an item.\<close>

fun wire :: "item \<Rightarrow> string" where
  "wire (Chunk cits msg) = json_dumps_chunk cits msg"
| "wire (ErrorText s) = ''An error occurred: '' @ s"

subsection \<open>Reading the strings back\<close>

text \<open>
  What the caller does with an item: it parses the text as JSON and reads the two fields
  of a chunk. The decoder below does this for the texts of chunks: objects with the
  members \<^verbatim>\<open>citations\<close> (an array of strings) and \<^verbatim>\<open>message\<close> (a string, or an
  array of objects with the string members \<^verbatim>\<open>node_name\<close>, \<^verbatim>\<open>docstring\<close> and
  \<^verbatim>\<open>code\<close>), in this order, with any white space between the tokens. It is written
  from the grammar of JSON, not from \<open>json_dumps_chunk\<close>.
\<close>

definition json_whitespace :: "char \<Rightarrow> bool" where
  "json_whitespace c = (c = CHR '' '' \<or> c = NL \<or> c = CHR 0x0D \<or> c = CHR 0x09)"

datatype token = LBrace | RBrace | LBrack | RBrack | Comma | Colon | Str string

definition hex_value :: "char \<Rightarrow> nat option" where
  "hex_value c =
     (let n = (of_char c :: nat)
      in if 48 \<le> n \<and> n \<le> 57 then Some (n - 48)
         else if 97 \<le> n \<and> n \<le> 102 then Some (n - 87)
         else if 65 \<le> n \<and> n \<le> 70 then Some (n - 55)
         else None)"

text \<open>The character that a backslash and \<open>e\<close> stand for, \<^verbatim>\<open>\u\<close> apart.\<close>

definition unescape :: "char \<Rightarrow> char option" where
  "unescape e =
     (if e = DQ then Some DQ
      else if e = BSL then Some BSL
      else if e = CHR ''/'' then Some (CHR ''/'')
      else if e = CHR ''n'' then Some NL
      else if e = CHR ''r'' then Some (CHR 0x0D)
      else if e = CHR ''t'' then Some (CHR 0x09)
      else if e = CHR ''b'' then Some (CHR 0x08)
      else if e = CHR ''f'' then Some (CHR 0x0C)
      else None)"

text \<open>
  The tokens of a text. The first argument is \<open>None\<close> between tokens and holds the
  characters read so far inside a string. An escape \<^verbatim>\<open>\uXXXX\<close> is accepted for the
  code points below 256, the ones a \<open>string\<close> has; a control character inside a string,
  an unfinished string and any other character between tokens are errors.
\<close>

fun lex :: "string option \<Rightarrow> string \<Rightarrow> token list option" where
  "lex None [] = Some []"
| "lex (Some acc) [] = None"
| "lex None (c # cs) =
     (if json_whitespace c then lex None cs
      else if c = CHR ''{'' then map_option (Cons LBrace) (lex None cs)
      else if c = CHR ''}'' then map_option (Cons RBrace) (lex None cs)
      else if c = CHR ''['' then map_option (Cons LBrack) (lex None cs)
      else if c = CHR '']'' then map_option (Cons RBrack) (lex None cs)
      else if c = CHR '','' then map_option (Cons Comma) (lex None cs)
      else if c = CHR '':'' then map_option (Cons Colon) (lex None cs)
      else if c = DQ then lex (Some []) cs
      else None)"
| "lex (Some acc) (c # cs) =
     (if c = DQ then map_option (Cons (Str acc)) (lex None cs)
      else if c = BSL then
        (case cs of
           [] \<Rightarrow> None
         | e # r \<Rightarrow>
             if e = CHR ''u'' then
               (case r of
                  h1 # h2 # h3 # h4 # r' \<Rightarrow>
                    (case (hex_value h1, hex_value h2, hex_value h3, hex_value h4) of
                       (Some x1, Some x2, Some x3, Some x4) \<Rightarrow>
                         if x1 = 0 \<and> x2 = 0
                         then lex (Some (acc @ [char_of (16 * x3 + x4)])) r'
                         else None
                     | _ \<Rightarrow> None)
                | _ \<Rightarrow> None)
             else (case unescape e of
                     None \<Rightarrow> None
                   | Some ch \<Rightarrow> lex (Some (acc @ [ch])) r))
      else if (of_char c :: nat) < 32 then None
      else lex (Some (acc @ [c])) cs)"


text \<open>An array of strings: the elements and the tokens after the closing bracket.\<close>

fun parse_strs_tail :: "token list \<Rightarrow> (string list \<times> token list) option" where
  "parse_strs_tail (RBrack # ts) = Some ([], ts)"
| "parse_strs_tail (Comma # Str s # ts) =
     map_option (\<lambda>(ss, r). (s # ss, r)) (parse_strs_tail ts)"
| "parse_strs_tail _ = None"

fun parse_strs :: "token list \<Rightarrow> (string list \<times> token list) option" where
  "parse_strs (LBrack # RBrack # ts) = Some ([], ts)"
| "parse_strs (LBrack # Str s # ts) = map_option (\<lambda>(ss, r). (s # ss, r)) (parse_strs_tail ts)"
| "parse_strs _ = None"

text \<open>A given token; a member with a given name and a string value.\<close>

fun expect :: "token \<Rightarrow> token list \<Rightarrow> token list option" where
  "expect t [] = None"
| "expect t (t' # ts) = (if t' = t then Some ts else None)"

fun parse_member :: "string \<Rightarrow> token list \<Rightarrow> (string \<times> token list) option" where
  "parse_member k (Str k' # Colon # Str v # ts) = (if k' = k then Some (v, ts) else None)"
| "parse_member k _ = None"

text \<open>An object with the three members of a \<^verbatim>\<open>NodeResponse\<close>, and an array of them.\<close>

definition parse_node :: "token list \<Rightarrow> (NodeResponse \<times> token list) option" where
  "parse_node ts =
     Option.bind (expect LBrace ts) (\<lambda>t1.
     Option.bind (parse_member ''node_name'' t1) (\<lambda>(v1, t2).
     Option.bind (expect Comma t2) (\<lambda>t3.
     Option.bind (parse_member ''docstring'' t3) (\<lambda>(v2, t4).
     Option.bind (expect Comma t4) (\<lambda>t5.
     Option.bind (parse_member ''code'' t5) (\<lambda>(v3, t6).
     Option.bind (expect RBrace t6) (\<lambda>t7.
       Some (\<lparr>node_name = v1, docstring = v2, code = v3\<rparr>, t7))))))))"

text \<open>
  The elements of an array of nodes after the first, with the number of tokens as a
  bound on the number of elements.
\<close>

fun parse_nodes_tail :: "nat \<Rightarrow> token list \<Rightarrow> (NodeResponse list \<times> token list) option" where
  "parse_nodes_tail 0 ts = None"
| "parse_nodes_tail (Suc fuel) [] = None"
| "parse_nodes_tail (Suc fuel) (t # ts) =
     (if t = RBrack then Some ([], ts)
      else if t = Comma then
        (case parse_node ts of
           None \<Rightarrow> None
         | Some (n, r) \<Rightarrow> map_option (\<lambda>(ns, r'). (n # ns, r')) (parse_nodes_tail fuel r))
      else None)"

definition parse_nodes :: "token list \<Rightarrow> (NodeResponse list \<times> token list) option" where
  "parse_nodes ts =
     (case expect LBrack ts of
        None \<Rightarrow> None
      | Some t1 \<Rightarrow>
          (case expect RBrack t1 of
             Some t2 \<Rightarrow> Some ([], t2)
           | None \<Rightarrow>
               (case parse_node t1 of
                  None \<Rightarrow> None
                | Some (n, r) \<Rightarrow>
                    map_option (\<lambda>(ns, r'). (n # ns, r'))
                      (parse_nodes_tail (Suc (length r)) r))))"

text \<open>The value of \<^verbatim>\<open>message\<close>: a string, or an array of nodes.\<close>

definition parse_content :: "token list \<Rightarrow> (msg_content \<times> token list) option" where
  "parse_content ts =
     (case ts of
        Str s # r \<Rightarrow> Some (Text s, r)
      | _ \<Rightarrow> map_option (\<lambda>(ns, r). (Nodes ns, r)) (parse_nodes ts))"

text \<open>A chunk: the object with the two members, and nothing after it.\<close>

definition parse_chunk :: "token list \<Rightarrow> (string list \<times> msg_content) option" where
  "parse_chunk ts =
     Option.bind (expect LBrace ts) (\<lambda>t1.
     Option.bind (expect (Str ''citations'') t1) (\<lambda>t2.
     Option.bind (expect Colon t2) (\<lambda>t3.
     Option.bind (parse_strs t3) (\<lambda>(cits, t4).
     Option.bind (expect Comma t4) (\<lambda>t5.
     Option.bind (expect (Str ''message'') t5) (\<lambda>t6.
     Option.bind (expect Colon t6) (\<lambda>t7.
     Option.bind (parse_content t7) (\<lambda>(msg, t8).
       if t8 = [RBrace] then Some (cits, msg) else None))))))))"

definition decode_chunk :: "string \<Rightarrow> (string list \<times> msg_content) option" where
  "decode_chunk s = Option.bind (lex None s) parse_chunk"

text \<open>
  The tokens of the text of a chunk, for the proof that the decoder reads back what
  \<open>json_dumps_chunk\<close> writes.
\<close>

definition tokens_strs :: "string list \<Rightarrow> token list" where
  "tokens_strs xs = LBrack # join [Comma] (map (\<lambda>s. [Str s]) xs) @ [RBrack]"

definition tokens_node :: "NodeResponse \<Rightarrow> token list" where
  "tokens_node n =
     [LBrace, Str ''node_name'', Colon, Str (node_name n), Comma,
      Str ''docstring'', Colon, Str (docstring n), Comma,
      Str ''code'', Colon, Str (code n), RBrace]"

fun tokens_content :: "msg_content \<Rightarrow> token list" where
  "tokens_content (Text s) = [Str s]"
| "tokens_content (Nodes ns) = LBrack # join [Comma] (map tokens_node ns) @ [RBrack]"

definition tokens_chunk :: "string list \<Rightarrow> msg_content \<Rightarrow> token list" where
  "tokens_chunk cits msg =
     [LBrace, Str ''citations'', Colon] @ tokens_strs cits
       @ [Comma, Str ''message'', Colon] @ tokens_content msg @ [RBrace]"

text \<open>
  A JSON text that denotes an object starts, after optional white space, with an opening
  brace; a string that does not cannot be parsed as one by any parser.
\<close>

definition starts_json_object :: "string \<Rightarrow> bool" where
  "starts_json_object s =
     (case dropWhile json_whitespace s of [] \<Rightarrow> False | c # _ \<Rightarrow> c = CHR ''{'')"

text \<open>A chunk whose message is a string.\<close>

fun is_text_chunk :: "item \<Rightarrow> bool" where
  "is_text_chunk (Chunk c (Text s)) = True"
| "is_text_chunk _ = False"

subsection \<open>The classifier's window as the specification words it\<close>

text \<open>
  The specification's reading of the routing prompt: the query and the contents of the
  five most recent human-authored turns. It is compared with \<open>classification_inputs\<close>.
\<close>

definition spec_classification_inputs :: "string \<Rightarrow> message list \<Rightarrow> string \<times> string list" where
  "spec_classification_inputs query hist =
     (query, map content (last5 (filter isinstance_HumanMessage hist)))"

section \<open>Concrete requests\<close>

text \<open>An environment of the runner, and a list of two node contexts.\<close>

definition example_runner_env :: runner_env where
  "example_runner_env =
     \<lparr>run_multiple = (\<lambda>project_id ids. Inr (map (\<lambda>i. ''code of '' @ i) ids)),
      create_agents_raises = None,
      create_tasks_raises = None,
      transcript = [''thinking...'' @ [NL], ''## Final Answer: '' @ [NL], ''Hello'' @ [NL]],
      get_project_structure_async = (\<lambda>project_id. Inr ''src/'')\<rparr>"

definition example_node_ids :: "NodeContext list" where
  "example_node_ids = [\<lparr>node_id = ''a''\<rparr>, \<lparr>node_id = ''b''\<rparr>]"

text \<open>
  An environment in which every collaborator answers: both prompts exist, the history
  holds a human turn, an AI turn and a bare scalar, the classifier asks for the agent on
  one query and not on others, the blast-radius agent returns a structured result citing
  \<open>src/a.py\<close>, \<^verbatim>\<open>format_citations\<close> drops the leading directory, and the chain
  streams two chunks.
\<close>

definition example_node :: NodeResponse where
  "example_node = \<lparr>node_name = ''f'', docstring = ''doc'', code = ''pass''\<rparr>"

definition example_rag_response :: RAGResponse where
  "example_rag_response = \<lparr>citations = [''src/a.py''], response = [example_node]\<rparr>"

definition example_blast_response :: blast_radius_response where
  "example_blast_response = \<lparr>blast_citations = [''src/a.py''], blast_response = ''changed''\<rparr>"

definition example_env :: env where
  "example_env =
     \<lparr>get_prompts = (\<lambda>agent user_id. Inr (Some ''system'', Some ''human'')),
      get_session_history =
        (\<lambda>user_id conversation_id.
           Inr [Msg (HumanMessage ''hi''), Msg (AIMessage ''hello''), Scalar ''42'']),
      classification_chain =
        (\<lambda>user_id query hist.
           Inr (if query = ''why does f crash?'' then AGENT_REQUIRED else NO_AGENT)),
      runner = example_runner_env,
      kickoff_blast_radius_agent =
        (\<lambda>query project_id node_ids.
           Inr \<lparr>blast_pydantic = Some example_blast_response, blast_raw = ''raw''\<rparr>),
      format_citations = map (drop 4),
      astream = (\<lambda>chain inputs. ([WithContent ''Hel'', WithContent ''lo''], None)),
      add_message_chunk_raises = (\<lambda>content cits. None),
      flush_message_buffer_raises = None\<rparr>"

text \<open>
  The same environment with a blast-radius agent that raises an \<^verbatim>\<open>Exception\<close>, with
  one whose task is cancelled, and with a history manager that fails on the second
  chunk of the stream.
\<close>

definition failing_env :: env where
  "failing_env =
     example_env
       \<lparr>kickoff_blast_radius_agent := (\<lambda>query project_id node_ids. Inl (Raised ''boom''))\<rparr>"

definition cancelled_env :: env where
  "cancelled_env =
     example_env
       \<lparr>kickoff_blast_radius_agent := (\<lambda>query project_id node_ids. Inl CancelledError)\<rparr>"

definition failing_history_env :: env where
  "failing_history_env =
     example_env
       \<lparr>add_message_chunk_raises :=
          (\<lambda>content cits. if content = Text ''lo'' then Some (Raised ''db'') else None)\<rparr>"

section \<open>Properties of the transcript stream extractor\<close>

lemma stream_lines_no_marker:
  "\<forall>l \<in> set ls. \<not> str_in final_answer_marker l \<Longrightarrow> stream_lines False ls = []"
  by (induction ls) auto

lemma stream_lines_append_no_marker:
  "\<forall>l \<in> set ls. \<not> str_in final_answer_marker l \<Longrightarrow>
   stream_lines False (ls @ rest) = (if [] \<in> set ls then [] else stream_lines False rest)"
  by (induction ls) auto

text \<open>
  Claim C3, on the line sequence exactly as the claim writes it (no line terminators):
  the last line does not end with the six characters \<^verbatim>\<open>"\x1b[00m\n"\<close> that the code
  tests for, so it is forwarded with its escape sequence; the extractor does not emit
  \<open>[''Hello'', ''World'']\<close>.
\<close>

theorem extract_final_answer_literal_lines:
  "extract_final_answer
     [''thinking...'', ''## Final Answer: '', ''Hello'', ''World'' @ ESC # ''[00m'']
   \<noteq> [''Hello'', ''World'']"
  by (simp add: extract_final_answer_def final_answer_marker_def endswith_def
      color_reset_line_end_def drop_last6_def ESC_def)

text \<open>
  Claim C3, amended: on the same four lines as the line reader delivers them, each ending
  with a newline, the extractor emits exactly two fragments. The marker line is consumed,
  \<open>Hello\<close> is forwarded unchanged (newline included), and the line that ends with the
  colour reset loses the escape sequence together with its newline.
\<close>

theorem extract_final_answer_terminated_lines:
  "extract_final_answer
     [''thinking...'' @ [NL], ''## Final Answer: '' @ [NL], ''Hello'' @ [NL],
      ''World'' @ ESC # ''[00m'' @ [NL]]
   = [''Hello'' @ [NL], ''World'']"
  by (simp add: extract_final_answer_def final_answer_marker_def endswith_def
      color_reset_line_end_def drop_last6_def)

text \<open>
  Claim C7: when no line of the transcript contains the marker \<^verbatim>\<open>## Final Answer:\<close>,
  the extractor emits no fragment, however many lines there are; and nothing is emitted
  for the first line that follows such a marker-free run either, so no fragment precedes
  the end of the first marker line.
\<close>

theorem extract_final_answer_no_marker:
  assumes "\<forall>l \<in> set ls. \<not> str_in final_answer_marker l"
  shows "extract_final_answer ls = [] \<and> extract_final_answer (ls @ [l']) = []"
proof -
  have "stream_lines False ls = []"
    using assms by (rule stream_lines_no_marker)
  moreover have "stream_lines False (ls @ [l']) = []"
    using assms by (simp add: stream_lines_append_no_marker)
  ultimately show ?thesis
    by (simp add: extract_final_answer_def)
qed

theorem extract_final_answer_no_marker_witness:
  "\<not> str_in final_answer_marker (''thinking...'' @ [NL])
   \<and> \<not> str_in final_answer_marker (''Action: search'' @ [NL])
   \<and> extract_final_answer [''thinking...'' @ [NL], ''Action: search'' @ [NL]] = []
   \<and> extract_final_answer
        ([''thinking...'' @ [NL], ''Action: search'' @ [NL]] @ [''## Final Answer: ok'' @ [NL]])
      = []"
proof -
  have h: "\<forall>l \<in> set [''thinking...'' @ [NL], ''Action: search'' @ [NL]].
      \<not> str_in final_answer_marker l"
    by (simp add: final_answer_marker_def NL_def)
  show ?thesis
    using h extract_final_answer_no_marker [OF h, of "''## Final Answer: ok'' @ [NL]"]
    by simp
qed

section \<open>Properties of the runner\<close>

lemma lookups_append: "lookups (xs @ ys) = lookups xs @ lookups ys"
  by (induction xs rule: lookups.induct) auto

lemma lookups_Emit: "lookups (map Emit xs) = []"
  by (induction xs) auto

lemma task_code_results_append:
  "task_code_results (xs @ ys) = task_code_results xs @ task_code_results ys"
  by (induction xs rule: task_code_results.induct) auto

lemma task_code_results_Emit: "task_code_results (map Emit xs) = []"
  by (induction xs) auto

text \<open>
  Claim C9: the lookups that \<^verbatim>\<open>DebugRAGAgent.run\<close> itself makes before the crew
  starts. For a non-empty \<^verbatim>\<open>node_ids\<close> there is exactly one call of
  \<^verbatim>\<open>run_multiple\<close>, with the project and the list of all \<^verbatim>\<open>node_id\<close> values in
  order, whatever the collaborators answer; for an empty \<^verbatim>\<open>node_ids\<close> there is no
  call, \<^verbatim>\<open>code_results\<close> is the empty list, and that is what the task receives.
\<close>

theorem batched_lookup:
  "lookups (fst (DebugRAGAgent_run renv q p h ns fs))
     = (if ns = [] then [] else [(p, map node_id ns)])
   \<and> resolve_code_results renv p [] = ([], Inr [])
   \<and> list_all (\<lambda>r. r = []) (task_code_results (fst (DebugRAGAgent_run renv q p h [] fs)))"
  by (auto simp: DebugRAGAgent_run_def resolve_code_results_def Let_def lookups_append
      lookups_Emit task_code_results_append task_code_results_Emit
      split: sum.splits option.splits)

text \<open>
  The theorem at the node contexts \<open>a\<close> and \<open>b\<close> of the specification's example, and
  at the empty list.
\<close>

theorem batched_lookup_example:
  "lookups (fst (DebugRAGAgent_run example_runner_env ''q'' ''p'' [] example_node_ids ''fs''))
     = [(''p'', [''a'', ''b''])]
   \<and> lookups (fst (DebugRAGAgent_run example_runner_env ''q'' ''p'' [] [] ''fs'')) = []
   \<and> task_code_results (fst (DebugRAGAgent_run example_runner_env ''q'' ''p'' [] [] ''fs''))
     = [[]]"
  using batched_lookup [of example_runner_env "''q''" "''p''" "[]" example_node_ids "''fs''"]
    batched_lookup [of example_runner_env "''q''" "''p''" "[]" "[]" "''fs''"]
  by (simp add: example_node_ids_def DebugRAGAgent_run_def resolve_code_results_def
      example_runner_env_def lookups_append lookups_Emit task_code_results_append
      task_code_results_Emit)

section \<open>Properties of the classifier's inputs\<close>

lemma last5_append: "length recent = 5 \<Longrightarrow> last5 (older @ recent) = recent"
  by (simp add: last5_def)

text \<open>
  Claim C8, on the history \<open>[HumanMessage h1, AIMessage a1]\<close>: the routing prompt
  receives the content of the AI turn too, while the five most recent human-authored
  turns are \<open>h1\<close> alone. \<^verbatim>\<open>_classify_query\<close> slices the history it is given, and
  \<^verbatim>\<open>run\<close> gives it all of \<^verbatim>\<open>validated_history\<close>.
\<close>

theorem classification_window_not_human_only:
  "classification_inputs ''q'' [HumanMessage ''h1'', AIMessage ''a1'']
     = (''q'', [''h1'', ''a1''])
   \<and> spec_classification_inputs ''q'' [HumanMessage ''h1'', AIMessage ''a1'']
     = (''q'', [''h1''])
   \<and> classification_inputs ''q'' [HumanMessage ''h1'', AIMessage ''a1'']
     \<noteq> spec_classification_inputs ''q'' [HumanMessage ''h1'', AIMessage ''a1'']"
  by (simp add: classification_inputs_def spec_classification_inputs_def last5_def)

text \<open>
  Claim C8, amended: the classifier's chain is invoked on the query and the contents of
  the last five entries of the history it is given, whatever their role: at most five
  entries, a suffix of the history, so that everything older than the last five is
  dropped and the window is fixed. When all entries are human messages, these are the
  five most recent human-authored turns.
\<close>

theorem classification_window:
  "classify_query env q h u = classification_chain env u q (map content (last5 h))
   \<and> classification_inputs q h = (q, map content (last5 h))
   \<and> length (last5 h) = min 5 (length h)
   \<and> suffix (last5 h) h
   \<and> (length recent = 5 \<longrightarrow>
        classification_inputs q (older @ recent) = (q, map content recent))
   \<and> (list_all isinstance_HumanMessage h \<longrightarrow>
        classification_inputs q h = spec_classification_inputs q h)"
proof -
  have "filter isinstance_HumanMessage h = h" if "list_all isinstance_HumanMessage h"
    using that by (induction h) auto
  then show ?thesis
    by (auto simp: classify_query_def classification_inputs_def spec_classification_inputs_def
        last5_append suffix_drop last5_def)
qed

theorem classification_window_witness:
  "length [HumanMessage ''2'', AIMessage ''3'', HumanMessage ''4'', AIMessage ''5'',
           HumanMessage ''6''] = 5
   \<and> classification_inputs ''q''
        ([HumanMessage ''0'', AIMessage ''1'']
           @ [HumanMessage ''2'', AIMessage ''3'', HumanMessage ''4'', AIMessage ''5'',
              HumanMessage ''6''])
      = (''q'', [''2'', ''3'', ''4'', ''5'', ''6''])
   \<and> list_all isinstance_HumanMessage [HumanMessage ''a'', HumanMessage ''b'']
   \<and> classification_inputs ''q'' [HumanMessage ''a'', HumanMessage ''b'']
      = spec_classification_inputs ''q'' [HumanMessage ''a'', HumanMessage ''b'']"
  using classification_window [of example_env "''q''"
      "[HumanMessage ''a'', HumanMessage ''b'']" "''u''"
      "[HumanMessage ''2'', AIMessage ''3'', HumanMessage ''4'', AIMessage ''5'',
        HumanMessage ''6'']"
      "[HumanMessage ''0'', AIMessage ''1'']"]
  by (simp add: classification_inputs_def spec_classification_inputs_def last5_def)

section \<open>Properties of the streaming loop and of the handler\<close>

lemma yields_append: "yields (xs @ ys) = yields xs @ yields ys"
  by (induction xs rule: yields.induct) auto

lemma adds_append: "adds (xs @ ys) = adds xs @ adds ys"
  by (induction xs rule: adds.induct) auto

lemma chunks_of_append: "chunks_of (xs @ ys) = chunks_of xs @ chunks_of ys"
  by (induction xs rule: chunks_of.induct) auto

lemma write_then_notify_flush:
  "write_then_notify p (evs @ [FlushMessageBuffer c]) = write_then_notify p evs"
  by (induction p evs rule: write_then_notify.induct) (auto split: list.splits)

lemma write_then_notify_error:
  "write_then_notify p (evs @ [Yield (ErrorText s)]) = write_then_notify p evs"
  by (induction p evs rule: write_then_notify.induct) (auto split: list.splits)

lemma stream_loop_write_then_notify:
  "write_then_notify [] (fst (stream_loop env c p y chunks e))"
  by (induction chunks) (auto simp: Let_def split: option.splits prod.splits)

lemma stream_loop_success:
  "snd (stream_loop env c p y chunks e) = None \<Longrightarrow>
   map fst (adds (fst (stream_loop env c p y chunks e)))
     = map snd (chunks_of (yields (fst (stream_loop env c p y chunks e))))"
  by (induction chunks) (auto simp: Let_def split: option.splits prod.splits)

lemma stream_loop_is_chunk: "list_all is_chunk (yields (fst (stream_loop env c p y chunks e)))"
  by (induction chunks) (auto simp: Let_def split: option.splits prod.splits)

lemma stream_loop_is_text_chunk:
  "list_all is_text_chunk (yields (fst (stream_loop env c p y chunks e)))"
  by (induction chunks) (auto simp: Let_def split: option.splits prod.splits)

lemma stream_loop_chunks:
  "chunks_of (yields (fst (stream_loop env c p y chunks e)))
     = map (\<lambda>x. (y, Text (chunk_content x)))
         (takeWhile (\<lambda>x. add_message_chunk_raises env (Text (chunk_content x)) p = None)
            chunks)"
  by (induction chunks) (auto simp: Let_def split: option.splits prod.splits)

lemma stream_loop_no_add_failure:
  "\<forall>m k. add_message_chunk_raises env m k = None \<Longrightarrow>
   stream_loop env c p y chunks e
     = (concat (map (\<lambda>ch. [AddMessageChunk c (Text (chunk_content ch)) p,
                            Yield (Chunk y (Text (chunk_content ch)))]) chunks), e)"
  by (induction chunks) (auto simp: Let_def split: option.splits prod.splits)

lemma yields_pairs:
  "yields (concat (map (\<lambda>ch. [AddMessageChunk c (Text (chunk_content ch)) p,
                            Yield (Chunk y (Text (chunk_content ch)))]) chunks))
   = map (\<lambda>ch. Chunk y (Text (chunk_content ch))) chunks"
  by (induction chunks) auto

lemma adds_pairs:
  "adds (concat (map (\<lambda>ch. [AddMessageChunk c (Text (chunk_content ch)) p,
                            Yield (Chunk y (Text (chunk_content ch)))]) chunks))
   = map (\<lambda>ch. (Text (chunk_content ch), p)) chunks"
  by (induction chunks) auto

lemma chunks_of_map_Chunk:
  "chunks_of (map (\<lambda>ch. Chunk y (f ch)) chunks) = map (\<lambda>ch. (y, f ch)) chunks"
  by (induction chunks) auto

lemma stream_and_flush_is_chunk:
  "list_all is_chunk (yields (fst (stream_and_flush env c p y st)))"
  using stream_loop_is_chunk [of env c p y "fst st" "snd st"]
  by (auto simp: stream_and_flush_def yields_append split: prod.splits option.splits)

lemma stream_and_flush_is_text_chunk:
  "list_all is_text_chunk (yields (fst (stream_and_flush env c p y st)))"
  using stream_loop_is_text_chunk [of env c p y "fst st" "snd st"]
  by (auto simp: stream_and_flush_def yields_append split: prod.splits option.splits)

lemma stream_and_flush_chunks:
  "chunks_of (yields (fst (stream_and_flush env c p y st)))
     = map (\<lambda>x. (y, Text (chunk_content x)))
         (takeWhile (\<lambda>x. add_message_chunk_raises env (Text (chunk_content x)) p = None)
            (fst st))"
  using stream_loop_chunks [of env c p y "fst st" "snd st"]
  by (auto simp: stream_and_flush_def yields_append chunks_of_append
      split: prod.splits option.splits)

lemma stream_and_flush_write_then_notify:
  "write_then_notify [] (fst (stream_and_flush env c p y st))"
  using stream_loop_write_then_notify [of env c p y "fst st" "snd st"]
  by (auto simp: stream_and_flush_def write_then_notify_flush split: prod.splits option.splits)

lemma stream_and_flush_success:
  "snd (stream_and_flush env c p y st) = None \<Longrightarrow>
   map fst (adds (fst (stream_and_flush env c p y st)))
     = map snd (chunks_of (yields (fst (stream_and_flush env c p y st))))"
  using stream_loop_success [of env c p y "fst st" "snd st"]
  by (auto simp: stream_and_flush_def adds_append yields_append chunks_of_append
      split: prod.splits option.splits)

lemma stream_and_flush_no_add_failure:
  assumes "\<forall>m k. add_message_chunk_raises env m k = None"
  shows "chunks_of (yields (fst (stream_and_flush env c p y st)))
           = map (\<lambda>x. (y, Text (chunk_content x))) (fst st)"
    and "adds (fst (stream_and_flush env c p y st))
           = map (\<lambda>x. (Text (chunk_content x), p)) (fst st)"
  using assms
  by (simp_all add: stream_and_flush_def stream_loop_no_add_failure yields_pairs adds_pairs
      yields_append adds_append chunks_of_map_Chunk split: option.splits)

lemma well_formed_stream_and_flush: "well_formed (stream_and_flush env c p y st)"
  by (simp add: well_formed_def stream_and_flush_is_chunk stream_and_flush_write_then_notify
      stream_and_flush_success)

lemma raised_handle_exception:
  "raised (handle_exception b)
     = (case raised b of
          None \<Rightarrow> None
        | Some e \<Rightarrow> if is_Exception e then None else Some e)"
  by (simp add: handle_exception_def split: option.splits)

lemma trace_handle_exception:
  "trace (handle_exception b)
     = trace b @ (case raised b of
                    None \<Rightarrow> []
                  | Some e \<Rightarrow> if is_Exception e then [Yield (ErrorText (str_exn e))] else [])"
  by (simp add: handle_exception_def split: option.splits)

lemma chunks_of_yields_handle_exception:
  "chunks_of (yields (trace (handle_exception b))) = chunks_of (yields (trace b))"
  by (simp add: trace_handle_exception yields_append chunks_of_append split: option.splits)

lemma adds_handle_exception: "adds (trace (handle_exception b)) = adds (trace b)"
  by (simp add: trace_handle_exception adds_append split: option.splits)

lemma write_then_notify_handle_exception:
  "write_then_notify [] (trace (handle_exception b)) = write_then_notify [] (trace b)"
  by (simp add: trace_handle_exception write_then_notify_error split: option.splits)

section \<open>The three ways through a run\<close>

text \<open>
  A \<^verbatim>\<open>try\<close> body fails before the classification is known, takes the agent branch,
  or streams directly.
\<close>

lemma DebuggingChatAgent_try_failed:
  "load_and_classify env ''DEBUGGING_AGENT'' ch q u c = Inl (c1, e) \<Longrightarrow>
   DebuggingChatAgent_try env ch q p u c ns l s = \<lparr>self_chain = c1, trace = [], raised = Some e\<rparr>"
  by (simp add: DebuggingChatAgent_try_def)

lemma DebuggingChatAgent_try_agent:
  "load_and_classify env ''DEBUGGING_AGENT'' ch q u c = Inr (chain, vh, AGENT_REQUIRED) \<Longrightarrow>
   DebuggingChatAgent_try env ch q p u c ns l s
     = (case debugging_agent_branch env q p vh ns c of
          (t, ci, evs, r) \<Rightarrow> \<lparr>self_chain = Some chain, trace = evs, raised = r\<rparr>)"
  by (simp add: DebuggingChatAgent_try_def split: prod.splits option.splits)

lemma DebuggingChatAgent_try_direct:
  "load_and_classify env ''DEBUGGING_AGENT'' ch q u c = Inr (chain, vh, cl) \<Longrightarrow>
   cl \<noteq> AGENT_REQUIRED \<Longrightarrow>
   DebuggingChatAgent_try env ch q p u c ns l s
     = (case debugging_direct_branch env chain q p vh c l s [] [] of
          (evs, r) \<Rightarrow> \<lparr>self_chain = Some chain, trace = evs, raised = r\<rparr>)"
  by (simp add: DebuggingChatAgent_try_def split: prod.splits option.splits)

lemma CodeChangesChatAgent_try_failed:
  "load_and_classify env ''CODE_CHANGES_AGENT'' ch q u c = Inl (c1, e) \<Longrightarrow>
   CodeChangesChatAgent_try env ch q p u c ns = \<lparr>self_chain = c1, trace = [], raised = Some e\<rparr>"
  by (simp add: CodeChangesChatAgent_try_def)

lemma CodeChangesChatAgent_try_agent:
  "load_and_classify env ''CODE_CHANGES_AGENT'' ch q u c = Inr (chain, vh, AGENT_REQUIRED) \<Longrightarrow>
   CodeChangesChatAgent_try env ch q p u c ns
     = (case code_changes_agent_branch env q p ns of
          (t, ci, evs, Some e) \<Rightarrow> \<lparr>self_chain = Some chain, trace = evs, raised = Some e\<rparr>
        | (t, ci, evs, None) \<Rightarrow>
            (case code_changes_stream env chain q vh c AGENT_REQUIRED t ci of
               (evs2, r) \<Rightarrow> \<lparr>self_chain = Some chain, trace = evs @ evs2, raised = r\<rparr>))"
  by (simp add: CodeChangesChatAgent_try_def split: prod.splits option.splits)

lemma CodeChangesChatAgent_try_direct:
  "load_and_classify env ''CODE_CHANGES_AGENT'' ch q u c = Inr (chain, vh, cl) \<Longrightarrow>
   cl \<noteq> AGENT_REQUIRED \<Longrightarrow>
   CodeChangesChatAgent_try env ch q p u c ns
     = (case code_changes_stream env chain q vh c cl [] [] of
          (evs, r) \<Rightarrow> \<lparr>self_chain = Some chain, trace = evs, raised = r\<rparr>)"
  by (simp add: CodeChangesChatAgent_try_def split: prod.splits option.splits)

lemma code_changes_agent_branch_no_events:
  "code_changes_agent_branch env q p ns = (tr, ci, evs, r) \<Longrightarrow> evs = []"
  by (auto simp: code_changes_agent_branch_def Let_def split: sum.splits option.splits)

lemma await_kickoff_debug_rag_agent:
  "await (kickoff_debug_rag_agent renv q p h ns) = Inl (TypeError await_async_generator_error)"
  by (simp add: kickoff_debug_rag_agent_def)

lemma debugging_agent_branch_raises:
  "debugging_agent_branch env q p vh ns c
     = ([], [], [], Some (TypeError await_async_generator_error))"
  by (simp add: debugging_agent_branch_def await_kickoff_debug_rag_agent)

lemma well_formed_debugging_agent_branch:
  "debugging_agent_branch env q p vh ns c = (t, ci, evs, r) \<Longrightarrow> well_formed (evs, r)"
  by (auto simp: well_formed_def debugging_agent_branch_raises)

lemma well_formed_DebuggingChatAgent_try:
  "well_formed (trace (DebuggingChatAgent_try env ch q p u c ns l s),
                raised (DebuggingChatAgent_try env ch q p u c ns l s))"
proof (cases "load_and_classify env ''DEBUGGING_AGENT'' ch q u c")
  case (Inl a)
  then show ?thesis
    by (cases a) (simp add: DebuggingChatAgent_try_failed well_formed_def)
next
  case (Inr b)
  then obtain chain vh cl where b: "load_and_classify env ''DEBUGGING_AGENT'' ch q u c = Inr (chain, vh, cl)"
    by (cases b) auto
  show ?thesis
  proof (cases "cl = AGENT_REQUIRED")
    case True
    obtain t ci evs r where br: "debugging_agent_branch env q p vh ns c = (t, ci, evs, r)"
      by (cases "debugging_agent_branch env q p vh ns c") auto
    with b True show ?thesis
      by (simp add: DebuggingChatAgent_try_agent well_formed_debugging_agent_branch [OF br])
  next
    case False
    obtain evs r where br: "debugging_direct_branch env chain q p vh c l s [] [] = (evs, r)"
      by (cases "debugging_direct_branch env chain q p vh c l s [] []") auto
    have "well_formed (debugging_direct_branch env chain q p vh c l s [] [])"
      by (simp add: debugging_direct_branch_def Let_def well_formed_stream_and_flush)
    with b False br show ?thesis
      by (simp add: DebuggingChatAgent_try_direct)
  qed
qed

lemma well_formed_CodeChangesChatAgent_try:
  "well_formed (trace (CodeChangesChatAgent_try env ch q p u c ns),
                raised (CodeChangesChatAgent_try env ch q p u c ns))"
proof (cases "load_and_classify env ''CODE_CHANGES_AGENT'' ch q u c")
  case (Inl a)
  then show ?thesis
    by (cases a) (simp add: CodeChangesChatAgent_try_failed well_formed_def)
next
  case (Inr b)
  then obtain chain vh cl where b: "load_and_classify env ''CODE_CHANGES_AGENT'' ch q u c = Inr (chain, vh, cl)"
    by (cases b) auto
  have st: "well_formed (code_changes_stream env chain q vh c cl t ci)" for t ci
    by (simp add: code_changes_stream_def Let_def well_formed_stream_and_flush)
  show ?thesis
  proof (cases "cl = AGENT_REQUIRED")
    case True
    obtain t ci evs r where br: "code_changes_agent_branch env q p ns = (t, ci, evs, r)"
      by (cases "code_changes_agent_branch env q p ns") auto
    then have evs: "evs = []"
      by (rule code_changes_agent_branch_no_events)
    obtain evs2 r2 where s2: "code_changes_stream env chain q vh c AGENT_REQUIRED t ci = (evs2, r2)"
      by (cases "code_changes_stream env chain q vh c AGENT_REQUIRED t ci") auto
    from st [of t ci] True s2 have "well_formed (evs2, r2)" by simp
    with b True br evs s2 show ?thesis
      by (cases r) (simp_all add: CodeChangesChatAgent_try_agent well_formed_def)
  next
    case False
    obtain evs r where br: "code_changes_stream env chain q vh c cl [] [] = (evs, r)"
      by (cases "code_changes_stream env chain q vh c cl [] []") auto
    with st [of "[]" "[]"] b False show ?thesis
      by (simp add: CodeChangesChatAgent_try_direct)
  qed
qed

lemma is_text_chunk_DebuggingChatAgent_try:
  "list_all is_text_chunk (yields (trace (DebuggingChatAgent_try env ch q p u c ns l s)))"
proof (cases "load_and_classify env ''DEBUGGING_AGENT'' ch q u c")
  case (Inl a)
  then show ?thesis
    by (cases a) (simp add: DebuggingChatAgent_try_failed)
next
  case (Inr b)
  then obtain chain vh cl where b: "load_and_classify env ''DEBUGGING_AGENT'' ch q u c = Inr (chain, vh, cl)"
    by (cases b) auto
  show ?thesis
  proof (cases "cl = AGENT_REQUIRED")
    case True
    with b show ?thesis
      by (simp add: DebuggingChatAgent_try_agent debugging_agent_branch_raises)
  next
    case False
    with b show ?thesis
      by (simp add: DebuggingChatAgent_try_direct debugging_direct_branch_def Let_def
          split_beta stream_and_flush_is_text_chunk)
  qed
qed

lemma is_text_chunk_CodeChangesChatAgent_try:
  "list_all is_text_chunk (yields (trace (CodeChangesChatAgent_try env ch q p u c ns)))"
proof (cases "load_and_classify env ''CODE_CHANGES_AGENT'' ch q u c")
  case (Inl a)
  then show ?thesis
    by (cases a) (simp add: CodeChangesChatAgent_try_failed)
next
  case (Inr b)
  then obtain chain vh cl where b: "load_and_classify env ''CODE_CHANGES_AGENT'' ch q u c = Inr (chain, vh, cl)"
    by (cases b) auto
  show ?thesis
  proof (cases "cl = AGENT_REQUIRED")
    case True
    obtain t ci evs r where br: "code_changes_agent_branch env q p ns = (t, ci, evs, r)"
      by (cases "code_changes_agent_branch env q p ns") auto
    then have evs: "evs = []"
      by (rule code_changes_agent_branch_no_events)
    with b True br show ?thesis
      by (cases r) (simp_all add: CodeChangesChatAgent_try_agent code_changes_stream_def
          Let_def split_beta stream_and_flush_is_text_chunk)
  next
    case False
    with b show ?thesis
      by (simp add: CodeChangesChatAgent_try_direct code_changes_stream_def Let_def
          split_beta stream_and_flush_is_text_chunk)
  qed
qed

lemma DebuggingChatAgent_run_agent_required:
  assumes "load_and_classify env ''DEBUGGING_AGENT'' ch q u c = Inr (chain, vh, AGENT_REQUIRED)"
  shows "trace (DebuggingChatAgent_run env ch q p u c ns l s)
           = [Yield (ErrorText await_async_generator_error)]"
    and "raised (DebuggingChatAgent_run env ch q p u c ns l s) = None"
  using assms
  by (simp_all add: DebuggingChatAgent_run_def trace_handle_exception raised_handle_exception
      DebuggingChatAgent_try_agent debugging_agent_branch_raises)

lemma CodeChangesChatAgent_run_structured:
  assumes "load_and_classify env ''CODE_CHANGES_AGENT'' ch q u c = Inr (chain, vh, AGENT_REQUIRED)"
    and "kickoff_blast_radius_agent env q p ns = Inr res"
    and "blast_pydantic res = Some br"
    and "\<forall>m k. add_message_chunk_raises env m k = None"
  shows "chunks_of (yields (trace (CodeChangesChatAgent_run env ch q p u c ns)))
          = map (\<lambda>x. (format_citations env (blast_citations br), Text (chunk_content x)))
              (fst (astream env chain
                 \<lparr>history = vh,
                  tool_results = [Text (''Blast Radius Agent result: '' @ blast_response br)],
                  input = q\<rparr>))"
    and "adds (trace (CodeChangesChatAgent_run env ch q p u c ns))
          = map (\<lambda>x. (Text (chunk_content x), Some (format_citations env (blast_citations br))))
              (fst (astream env chain
                 \<lparr>history = vh,
                  tool_results = [Text (''Blast Radius Agent result: '' @ blast_response br)],
                  input = q\<rparr>))"
  using assms
  by (simp_all add: CodeChangesChatAgent_run_def chunks_of_yields_handle_exception
      adds_handle_exception CodeChangesChatAgent_try_agent code_changes_agent_branch_def
      code_changes_stream_def stream_and_flush_no_add_failure split_beta Let_def)

lemma starts_json_object_chunk: "starts_json_object (json_dumps_chunk cits m)"
  by (simp add: starts_json_object_def json_dumps_chunk_def json_whitespace_def NL_def)

lemma not_starts_json_object_error: "\<not> starts_json_object (''An error occurred: '' @ t)"
  by (simp add: starts_json_object_def json_whitespace_def NL_def)

section \<open>The decoder reads back what is written\<close>

lemma hex_values:
  "map hex_value ''0123456789abcdef'' = map Some [0..<16]"
proof -
  have "[0..<16] = [0, 1, 2, 3, 4, 5, 6, 7, 8, 9, 10, 11, 12, 13, 14, 15 :: nat]"
    by code_simp
  then show ?thesis
    by (simp add: hex_value_def)
qed

lemma hex_value_hex_digit: "hex_value (hex_digit n) = Some (n mod 16)"
proof -
  have k: "n mod 16 < length ''0123456789abcdef''" by simp
  have "hex_value (''0123456789abcdef'' ! (n mod 16))
          = map hex_value ''0123456789abcdef'' ! (n mod 16)"
    using k by (simp only: nth_map)
  also have "\<dots> = map Some [0..<16] ! (n mod 16)"
    by (simp only: hex_values)
  also have "\<dots> = Some (n mod 16)"
    by simp
  finally show ?thesis
    by (simp only: hex_digit_def)
qed

lemma hex_value_zero: "hex_value (CHR ''0'') = Some 0"
  by (simp add: hex_value_def)

lemma of_char_div_16: "(of_char c :: nat) div 16 mod 16 = of_char c div 16"
proof -
  have "(of_char c :: nat) < 256" by simp
  then have "(of_char c :: nat) div 16 < 16" by arith
  then show ?thesis by simp
qed

lemma lex_escape_char:
  "lex (Some acc) (json_escape_char c @ xs) = lex (Some (acc @ [c])) xs"
proof -
  have u: "char_of (16 * ((of_char c :: nat) div 16) + of_char c mod 16) = c"
    by simp
  show ?thesis
    using u
    by (simp add: json_escape_char_def unescape_def DQ_def BSL_def NL_def
        hex_value_hex_digit hex_value_zero of_char_div_16)
qed

lemma lex_escaped:
  "lex (Some acc) (concat (map json_escape_char s) @ DQ # rest)
     = map_option (Cons (Str (acc @ s))) (lex None rest)"
proof (induction s arbitrary: acc)
  case Nil
  show ?case by simp
next
  case (Cons c s)
  have "lex (Some acc) (concat (map json_escape_char (c # s)) @ DQ # rest)
          = lex (Some acc) (json_escape_char c @ (concat (map json_escape_char s) @ DQ # rest))"
    by simp
  also have "\<dots> = lex (Some (acc @ [c])) (concat (map json_escape_char s) @ DQ # rest)"
    by (rule lex_escape_char)
  also have "\<dots> = map_option (Cons (Str ((acc @ [c]) @ s))) (lex None rest)"
    by (rule Cons.IH)
  finally show ?case by simp
qed

lemma lex_json_str:
  "lex None (json_str s @ rest) = map_option (Cons (Str s)) (lex None rest)"
proof -
  have "json_str s @ rest = DQ # (concat (map json_escape_char s) @ DQ # rest)"
    by (simp add: json_str_def)
  moreover have "\<not> json_whitespace DQ" "DQ \<noteq> CHR ''{''" "DQ \<noteq> CHR ''}''" "DQ \<noteq> CHR ''[''"
    "DQ \<noteq> CHR '']''" "DQ \<noteq> CHR '',''" "DQ \<noteq> CHR '':''"
    by (simp_all add: json_whitespace_def DQ_def NL_def)
  ultimately show ?thesis
    using lex_escaped [of "[]" s rest] by simp
qed

lemma lex_punctuation:
  "lex None (CHR ''{'' # rest) = map_option (Cons LBrace) (lex None rest)"
  "lex None (CHR ''}'' # rest) = map_option (Cons RBrace) (lex None rest)"
  "lex None (CHR ''['' # rest) = map_option (Cons LBrack) (lex None rest)"
  "lex None (CHR '']'' # rest) = map_option (Cons RBrack) (lex None rest)"
  "lex None (CHR '','' # CHR '' '' # rest) = map_option (Cons Comma) (lex None rest)"
  "lex None (CHR '':'' # CHR '' '' # rest) = map_option (Cons Colon) (lex None rest)"
  by (simp_all add: json_whitespace_def NL_def)

lemma lex_join:
  assumes "\<And>x r. lex None (enc x @ r) = map_option ((@) (tk x)) (lex None r)"
  shows "lex None (join '', '' (map enc xs) @ rest)
           = map_option ((@) (join [Comma] (map tk xs))) (lex None rest)"
proof (induction xs rule: induct_list012)
  case 1
  show ?case by (simp add: option.map_ident map_option.identity)
next
  case (2 x)
  show ?case by (simp add: assms)
next
  case (3 x y zs)
  have "lex None (join '', '' (map enc (x # y # zs)) @ rest)
          = lex None (enc x @ (CHR '','' # CHR '' '' # (join '', '' (map enc (y # zs)) @ rest)))"
    by simp
  also have "\<dots> = map_option ((@) (tk x))
                      (map_option (Cons Comma) (lex None (join '', '' (map enc (y # zs)) @ rest)))"
    by (simp only: assms lex_punctuation)
  also have "\<dots> = map_option ((@) (tk x))
                      (map_option (Cons Comma)
                         (map_option ((@) (join [Comma] (map tk (y # zs)))) (lex None rest)))"
    by (simp only: "3.IH")
  finally show ?case
    by (simp add: option.map_comp comp_def)
qed

lemma lex_str_tokens:
  "lex None (json_str s @ rest) = map_option ((@) [Str s]) (lex None rest)"
  by (cases "lex None rest") (simp_all add: lex_json_str)

lemma lex_json_strs:
  "lex None (json_list (map json_str xs) @ rest)
     = map_option ((@) (tokens_strs xs)) (lex None rest)"
proof -
  have "lex None (json_list (map json_str xs) @ rest)
          = lex None (CHR ''['' # (join '', '' (map json_str xs) @ (CHR '']'' # rest)))"
    by (simp add: json_list_def del: lex.simps)
  also have "\<dots> = map_option (Cons LBrack)
                      (map_option ((@) (join [Comma] (map (\<lambda>s. [Str s]) xs)))
                         (map_option (Cons RBrack) (lex None rest)))"
    by (simp only: lex_punctuation
        lex_join [where enc = json_str and tk = "\<lambda>s. [Str s]", OF lex_str_tokens])
  finally show ?thesis
    by (cases "lex None rest") (simp_all add: tokens_strs_def del: lex.simps)
qed

lemma lex_json_node:
  "lex None (json_node n @ rest) = map_option ((@) (tokens_node n)) (lex None rest)"
proof -
  have "lex None (json_node n @ rest)
          = lex None (CHR ''{'' # (json_str ''node_name'' @ (CHR '':'' # CHR '' '' #
              (json_str (node_name n) @ (CHR '','' # CHR '' '' #
              (json_str ''docstring'' @ (CHR '':'' # CHR '' '' #
              (json_str (docstring n) @ (CHR '','' # CHR '' '' #
              (json_str ''code'' @ (CHR '':'' # CHR '' '' #
              (json_str (code n) @ (CHR ''}'' # rest)))))))))))))"
    by (simp add: json_node_def del: lex.simps)
  also have "\<dots> = map_option ((@) (tokens_node n)) (lex None rest)"
    by (simp only: lex_punctuation lex_json_str)
      (cases "lex None rest"; simp add: tokens_node_def del: lex.simps)
  finally show ?thesis .
qed

lemma lex_json_content:
  "lex None (json_content m @ rest) = map_option ((@) (tokens_content m)) (lex None rest)"
proof (cases m)
  case (Text s)
  then show ?thesis by (simp add: lex_str_tokens del: lex.simps)
next
  case (Nodes ns)
  have "lex None (json_list (map json_node ns) @ rest)
          = lex None (CHR ''['' # (join '', '' (map json_node ns) @ (CHR '']'' # rest)))"
    by (simp add: json_list_def del: lex.simps)
  also have "\<dots> = map_option (Cons LBrack)
                      (map_option ((@) (join [Comma] (map tokens_node ns)))
                         (map_option (Cons RBrack) (lex None rest)))"
    by (simp only: lex_punctuation
        lex_join [where enc = json_node and tk = tokens_node, OF lex_json_node])
  finally show ?thesis
    using Nodes by (cases "lex None rest") (simp_all del: lex.simps)
qed

lemma lex_json_dumps_chunk:
  "lex None (json_dumps_chunk cits m) = Some (tokens_chunk cits m)"
proof -
  have e: "lex None [] = Some []" by simp
  have "lex None (json_dumps_chunk cits m)
          = lex None (CHR ''{'' # (json_str ''citations'' @ (CHR '':'' # CHR '' '' #
              (json_list (map json_str cits) @ (CHR '','' # CHR '' '' #
                (json_str ''message'' @ (CHR '':'' # CHR '' '' #
                   (json_content m @ (CHR ''}'' # [])))))))))"
    by (simp add: json_dumps_chunk_def del: lex.simps)
  also have "\<dots> = Some (tokens_chunk cits m)"
    by (simp only: lex_punctuation lex_json_str lex_json_strs lex_json_content e)
      (simp add: tokens_chunk_def)
  finally show ?thesis .
qed

lemma parse_strs_tail_tokens:
  "parse_strs_tail (concat (map (\<lambda>s. [Comma, Str s]) xs) @ RBrack # rest) = Some (xs, rest)"
  by (induction xs) auto

lemma join_Comma_Cons:
  "join [Comma] (a # map f xs) = a @ concat (map (\<lambda>y. Comma # f y) xs)"
  by (induction xs arbitrary: a) auto

lemma parse_strs_tokens: "parse_strs (tokens_strs xs @ rest) = Some (xs, rest)"
proof (cases xs)
  case Nil
  then show ?thesis by (simp add: tokens_strs_def)
next
  case (Cons x ys)
  have "tokens_strs (x # ys) @ rest
          = LBrack # Str x # (concat (map (\<lambda>s. [Comma, Str s]) ys) @ RBrack # rest)"
    by (simp add: tokens_strs_def join_Comma_Cons)
  then show ?thesis
    using Cons by (simp add: parse_strs_tail_tokens)
qed

lemma parse_node_tokens: "parse_node (tokens_node n @ rest) = Some (n, rest)"
  by (simp add: parse_node_def tokens_node_def)

lemma parse_nodes_tail_tokens:
  "length ns < fuel \<Longrightarrow>
   parse_nodes_tail fuel (concat (map (\<lambda>n. Comma # tokens_node n) ns) @ RBrack # rest)
     = Some (ns, rest)"
proof (induction ns arbitrary: fuel)
  case Nil
  then show ?case by (cases fuel) auto
next
  case (Cons n ns)
  then obtain f where f: "fuel = Suc f" "length ns < f"
    by (cases fuel) auto
  have "parse_nodes_tail (Suc f)
          (Comma # (tokens_node n @ (concat (map (\<lambda>n. Comma # tokens_node n) ns) @ RBrack # rest)))
        = Some (n # ns, rest)"
    using Cons.IH [OF f(2)] by (simp add: parse_node_tokens)
  then show ?case
    using f by simp
qed

lemma length_tokens_tail:
  "length ns < Suc (length (concat (map (\<lambda>n. Comma # tokens_node n) ns) @ RBrack # rest))"
  by (induction ns) (auto simp: tokens_node_def)

lemma parse_nodes_tokens:
  "parse_nodes (tokens_content (Nodes ns) @ rest) = Some (ns, rest)"
proof (cases ns)
  case Nil
  then show ?thesis by (simp add: parse_nodes_def)
next
  case (Cons n ms)
  define R where "R = concat (map (\<lambda>n. Comma # tokens_node n) ms) @ RBrack # rest"
  have t: "tokens_content (Nodes (n # ms)) @ rest = LBrack # (tokens_node n @ R)"
    by (simp add: join_Comma_Cons R_def)
  have h: "expect RBrack (tokens_node n @ R) = None"
    by (simp add: tokens_node_def)
  have pt: "parse_nodes_tail (Suc (length R)) R = Some (ms, rest)"
    unfolding R_def by (rule parse_nodes_tail_tokens [OF length_tokens_tail])
  show ?thesis
    unfolding Cons t parse_nodes_def
    by (simp add: h parse_node_tokens pt)
qed

lemma parse_content_tokens:
  "parse_content (tokens_content m @ rest) = Some (m, rest)"
proof (cases m)
  case (Text s)
  then show ?thesis by (simp add: parse_content_def)
next
  case (Nodes ns)
  have "parse_content (tokens_content (Nodes ns) @ rest)
          = map_option (\<lambda>(ns, r). (Nodes ns, r)) (parse_nodes (tokens_content (Nodes ns) @ rest))"
    by (simp add: parse_content_def)
  then show ?thesis
    using Nodes by (simp only: parse_nodes_tokens) simp
qed

lemma parse_chunk_tokens: "parse_chunk (tokens_chunk cits m) = Some (cits, m)"
proof -
  have "tokens_chunk cits m
          = LBrace # Str ''citations'' # Colon
              # (tokens_strs cits @ (Comma # Str ''message'' # Colon
                   # (tokens_content m @ [RBrace])))"
    by (simp add: tokens_chunk_def)
  then show ?thesis
    by (simp add: parse_chunk_def parse_strs_tokens parse_content_tokens)
qed

lemma decode_chunk_json_dumps_chunk:
  "decode_chunk (json_dumps_chunk cits m) = Some (cits, m)"
  by (simp add: decode_chunk_def lex_json_dumps_chunk parse_chunk_tokens)

lemma decode_chunk_error_text: "decode_chunk (''An error occurred: '' @ t) = None"
  by (simp add: decode_chunk_def json_whitespace_def DQ_def NL_def)

section \<open>The concrete requests evaluated\<close>

lemmas example_prefix_defs = load_and_classify_def ensure_chain_def create_chain_def
  classify_query_def classification_inputs_def last5_def example_env_def failing_env_def
  cancelled_env_def failing_history_env_def

lemmas example_run_defs = DebuggingChatAgent_run_def DebuggingChatAgent_try_def
  CodeChangesChatAgent_run_def CodeChangesChatAgent_try_def handle_exception_def
  debugging_agent_branch_raises debugging_direct_branch_def code_changes_agent_branch_def
  code_changes_stream_def stream_and_flush_def Let_def

lemma example_direct:
  "load_and_classify example_env agent None ''hello'' ''u'' ''c''
     = Inr (Chain ''system'' ''human'',
            [HumanMessage ''hi'', AIMessage ''hello'', HumanMessage ''42''], NO_AGENT)"
  by (simp add: example_prefix_defs)

lemma example_agent:
  "load_and_classify example_env agent None ''why does f crash?'' ''u'' ''c''
     = Inr (Chain ''system'' ''human'',
            [HumanMessage ''hi'', AIMessage ''hello'', HumanMessage ''42''], AGENT_REQUIRED)"
  by (simp add: example_prefix_defs)

lemma failing_agent:
  "load_and_classify failing_env agent None ''why does f crash?'' ''u'' ''c''
     = Inr (Chain ''system'' ''human'',
            [HumanMessage ''hi'', AIMessage ''hello'', HumanMessage ''42''], AGENT_REQUIRED)"
  by (simp add: example_prefix_defs)

lemma cancelled_agent:
  "load_and_classify cancelled_env agent None ''why does f crash?'' ''u'' ''c''
     = Inr (Chain ''system'' ''human'',
            [HumanMessage ''hi'', AIMessage ''hello'', HumanMessage ''42''], AGENT_REQUIRED)"
  by (simp add: example_prefix_defs)

lemma failing_history_direct:
  "load_and_classify failing_history_env agent None ''hello'' ''u'' ''c''
     = Inr (Chain ''system'' ''human'',
            [HumanMessage ''hi'', AIMessage ''hello'', HumanMessage ''42''], NO_AGENT)"
  by (simp add: example_prefix_defs)

lemma example_kickoff_blast:
  "kickoff_blast_radius_agent example_env q p ns
     = Inr \<lparr>blast_pydantic = Some example_blast_response, blast_raw = ''raw''\<rparr>"
  by (simp add: example_env_def example_blast_response_def)

lemma example_no_failures:
  "add_message_chunk_raises example_env m k = None" "flush_message_buffer_raises example_env = None"
  by (simp_all add: example_env_def)

lemma example_astream:
  "astream example_env ch i = ([WithContent ''Hel'', WithContent ''lo''], None)"
  "astream failing_history_env ch i = ([WithContent ''Hel'', WithContent ''lo''], None)"
  by (simp_all add: example_env_def failing_history_env_def)

lemma example_format:
  "format_citations example_env [''src/a.py''] = [''a.py'']"
  "format_citations example_env [] = []"
  by (simp_all add: example_env_def)

lemma CodeChangesChatAgent_run_failure:
  assumes "load_and_classify env ''CODE_CHANGES_AGENT'' ch q u c = Inr (chain, vh, AGENT_REQUIRED)"
    and "kickoff_blast_radius_agent env q p ns = Inl e"
  shows "trace (CodeChangesChatAgent_run env ch q p u c ns)
           = (if is_Exception e then [Yield (ErrorText (str_exn e))] else [])"
    and "raised (CodeChangesChatAgent_run env ch q p u c ns)
           = (if is_Exception e then None else Some e)"
  using assms
  by (simp_all add: CodeChangesChatAgent_run_def trace_handle_exception raised_handle_exception
      CodeChangesChatAgent_try_agent code_changes_agent_branch_def)

section \<open>Properties of the chat agents\<close>

text \<open>
  Claim C1, on \<^verbatim>\<open>CodeChangesChatAgent.run\<close>: the classifier returns
  \<^verbatim>\<open>AGENT_REQUIRED\<close>, the blast-radius agent returns a structured result citing
  \<open>src/a.py\<close>, and the chain streams two chunks. The run yields two chunks, not one,
  and their citations are the formatted ones, \<open>a.py\<close>.
\<close>

theorem code_changes_agent_required_two_chunks:
  "load_and_classify example_env ''CODE_CHANGES_AGENT'' None ''why does f crash?'' ''u'' ''c''
     = Inr (Chain ''system'' ''human'',
            [HumanMessage ''hi'', AIMessage ''hello'', HumanMessage ''42''], AGENT_REQUIRED)
   \<and> kickoff_blast_radius_agent example_env ''why does f crash?'' ''p'' []
     = Inr \<lparr>blast_pydantic = Some example_blast_response, blast_raw = ''raw''\<rparr>
   \<and> blast_citations example_blast_response = [''src/a.py'']
   \<and> yields (trace (CodeChangesChatAgent_run example_env None ''why does f crash?'' ''p'' ''u''
        ''c'' []))
     = [Chunk [''a.py''] (Text ''Hel''), Chunk [''a.py''] (Text ''lo'')]
   \<and> length (yields (trace (CodeChangesChatAgent_run example_env None ''why does f crash?''
        ''p'' ''u'' ''c'' []))) \<noteq> 1"
  by (simp add: example_agent example_kickoff_blast example_run_defs example_astream
      example_format example_no_failures)
    (simp add: example_blast_response_def example_format)

text \<open>
  Claim C1, amended: when the classifier returns \<^verbatim>\<open>AGENT_REQUIRED\<close> and the
  blast-radius agent returns a structured result, \<^verbatim>\<open>CodeChangesChatAgent.run\<close> yields
  one chunk for each chunk that the LLM chain streams over the history, the tool result
  and the query, each with \<^verbatim>\<open>format_citations\<close> of the tool agent's citations
  (provided persisting does not raise).
\<close>

theorem agent_required_structured_chunks:
  "load_and_classify env ''CODE_CHANGES_AGENT'' ch q u c = Inr (chain, vh, AGENT_REQUIRED)
      \<and> kickoff_blast_radius_agent env q p ns = Inr res
      \<and> blast_pydantic res = Some br
      \<and> (\<forall>m k. add_message_chunk_raises env m k = None)
    \<longrightarrow> chunks_of (yields (trace (CodeChangesChatAgent_run env ch q p u c ns)))
          = map (\<lambda>x. (format_citations env (blast_citations br), Text (chunk_content x)))
              (fst (astream env chain
                 \<lparr>history = vh,
                  tool_results = [Text (''Blast Radius Agent result: '' @ blast_response br)],
                  input = q\<rparr>))"
  by (simp add: CodeChangesChatAgent_run_structured(1) [of env ch q u c chain vh p ns res br])

theorem agent_required_structured_chunks_witness:
  "load_and_classify example_env ''CODE_CHANGES_AGENT'' None ''why does f crash?'' ''u'' ''c''
     = Inr (Chain ''system'' ''human'',
            [HumanMessage ''hi'', AIMessage ''hello'', HumanMessage ''42''], AGENT_REQUIRED)
   \<and> kickoff_blast_radius_agent example_env ''why does f crash?'' ''p'' []
     = Inr \<lparr>blast_pydantic = Some example_blast_response, blast_raw = ''raw''\<rparr>
   \<and> (\<forall>m k. add_message_chunk_raises example_env m k = None)
   \<and> chunks_of (yields (trace (CodeChangesChatAgent_run example_env None ''why does f crash?''
        ''p'' ''u'' ''c'' [])))
     = [([''a.py''], Text ''Hel''), ([''a.py''], Text ''lo'')]"
  using agent_required_structured_chunks [where env = example_env and ch = None
      and q = "''why does f crash?''" and u = "''u''" and c = "''c''"
      and chain = "Chain ''system'' ''human''"
      and vh = "[HumanMessage ''hi'', AIMessage ''hello'', HumanMessage ''42'']"
      and p = "''p''" and ns = "[]"
      and res = "\<lparr>blast_pydantic = Some example_blast_response, blast_raw = ''raw''\<rparr>"
      and br = example_blast_response]
  by (simp add: example_agent example_kickoff_blast example_no_failures example_astream)
    (simp add: example_blast_response_def example_format)

text \<open>
  Claim C2, on a request that the classifier sends to the direct chain while the history
  manager fails on the second chunk: the chain emits \<open>Hel\<close> and \<open>lo\<close>, the run yields
  the chunk \<open>Hel\<close> and then the error text, so the concatenated messages are \<open>Hel\<close> and
  not the chain's output \<open>Hello\<close>.
\<close>

theorem no_agent_stream_persist_failure:
  "load_and_classify failing_history_env ''CODE_CHANGES_AGENT'' None ''hello'' ''u'' ''c''
     = Inr (Chain ''system'' ''human'',
            [HumanMessage ''hi'', AIMessage ''hello'', HumanMessage ''42''], NO_AGENT)
   \<and> concat (map chunk_content (fst (astream failing_history_env (Chain ''system'' ''human'')
        \<lparr>history = [HumanMessage ''hi'', AIMessage ''hello'', HumanMessage ''42''],
         tool_results = [], input = ''hello''\<rparr>))) = ''Hello''
   \<and> yields (trace (CodeChangesChatAgent_run failing_history_env None ''hello'' ''p'' ''u''
        ''c'' []))
     = [Chunk [] (Text ''Hel''), ErrorText ''db'']
   \<and> concat (map (text_of \<circ> snd) (chunks_of (yields (trace
        (CodeChangesChatAgent_run failing_history_env None ''hello'' ''p'' ''u'' ''c'' [])))))
     \<noteq> ''Hello''"
  by (simp add: failing_history_direct example_run_defs example_astream)
    (simp add: failing_history_env_def example_env_def)

lemma takeWhile_True: "takeWhile (\<lambda>x. True) xs = xs"
  by (induction xs) auto

text \<open>
  Claim C2, amended: when the classifier returns \<^verbatim>\<open>NO_AGENT\<close>, the chunks yielded
  are, one for one and in order, the chunks emitted by the direct LLM chain up to the
  first one whose \<^verbatim>\<open>add_message_chunk\<close> call raises; every one of them has the
  citations \<open>[]\<close> in \<^verbatim>\<open>CodeChangesChatAgent.run\<close> and \<^verbatim>\<open>format_citations([])\<close> in
  \<^verbatim>\<open>DebuggingChatAgent.run\<close>. When no \<^verbatim>\<open>add_message_chunk\<close> call raises, the
  concatenated messages are the concatenated output of the chain.
\<close>

theorem no_agent_stream:
  "(load_and_classify env ''DEBUGGING_AGENT'' ch q u c = Inr (chain, vh, NO_AGENT)
    \<longrightarrow> chunks_of (yields (trace (DebuggingChatAgent_run env ch q p u c ns l s)))
          = map (\<lambda>x. (format_citations env [], Text (chunk_content x)))
              (takeWhile
                 (\<lambda>x. add_message_chunk_raises env (Text (chunk_content x))
                         (Some (format_citations env [])) = None)
                 (fst (astream env chain
                    \<lparr>history = vh, tool_results = [], input = full_query q p l s\<rparr>))))
   \<and> (load_and_classify env ''CODE_CHANGES_AGENT'' ch q u c = Inr (chain, vh, NO_AGENT)
    \<longrightarrow> chunks_of (yields (trace (CodeChangesChatAgent_run env ch q p u c ns)))
          = map (\<lambda>x. ([], Text (chunk_content x)))
              (takeWhile
                 (\<lambda>x. add_message_chunk_raises env (Text (chunk_content x)) None = None)
                 (fst (astream env chain \<lparr>history = vh, tool_results = [], input = q\<rparr>))))
   \<and> (load_and_classify env ''DEBUGGING_AGENT'' ch q u c = Inr (chain, vh, NO_AGENT)
      \<and> (\<forall>m k. add_message_chunk_raises env m k = None)
    \<longrightarrow> concat (map (text_of \<circ> snd)
             (chunks_of (yields (trace (DebuggingChatAgent_run env ch q p u c ns l s)))))
          = concat (map chunk_content
              (fst (astream env chain
                 \<lparr>history = vh, tool_results = [], input = full_query q p l s\<rparr>))))
   \<and> (load_and_classify env ''CODE_CHANGES_AGENT'' ch q u c = Inr (chain, vh, NO_AGENT)
      \<and> (\<forall>m k. add_message_chunk_raises env m k = None)
    \<longrightarrow> concat (map (text_of \<circ> snd)
             (chunks_of (yields (trace (CodeChangesChatAgent_run env ch q p u c ns)))))
          = concat (map chunk_content
              (fst (astream env chain \<lparr>history = vh, tool_results = [], input = q\<rparr>))))"
  by (simp add: DebuggingChatAgent_run_def CodeChangesChatAgent_run_def
      chunks_of_yields_handle_exception DebuggingChatAgent_try_direct
      CodeChangesChatAgent_try_direct debugging_direct_branch_def code_changes_stream_def
      stream_and_flush_chunks split_beta comp_def Let_def takeWhile_True)

theorem no_agent_stream_witness:
  "load_and_classify example_env ''DEBUGGING_AGENT'' None ''hello'' ''u'' ''c''
     = Inr (Chain ''system'' ''human'',
            [HumanMessage ''hi'', AIMessage ''hello'', HumanMessage ''42''], NO_AGENT)
   \<and> load_and_classify example_env ''CODE_CHANGES_AGENT'' None ''hello'' ''u'' ''c''
     = Inr (Chain ''system'' ''human'',
            [HumanMessage ''hi'', AIMessage ''hello'', HumanMessage ''42''], NO_AGENT)
   \<and> (\<forall>m k. add_message_chunk_raises example_env m k = None)
   \<and> chunks_of (yields (trace
        (DebuggingChatAgent_run example_env None ''hello'' ''p'' ''u'' ''c'' [] ''log'' ''st'')))
     = [([], Text ''Hel''), ([], Text ''lo'')]
   \<and> concat (map (text_of \<circ> snd) (chunks_of (yields (trace
        (DebuggingChatAgent_run example_env None ''hello'' ''p'' ''u'' ''c'' [] ''log'' ''st'')))))
     = ''Hello''
   \<and> chunks_of (yields (trace
        (CodeChangesChatAgent_run example_env None ''hello'' ''p'' ''u'' ''c'' [])))
     = [([], Text ''Hel''), ([], Text ''lo'')]
   \<and> concat (map (text_of \<circ> snd) (chunks_of (yields (trace
        (CodeChangesChatAgent_run example_env None ''hello'' ''p'' ''u'' ''c'' [])))))
     = ''Hello''"
proof -
  have a: "\<forall>m k. add_message_chunk_raises example_env m k = None"
    by (simp add: example_env_def)
  show ?thesis
    using a
      no_agent_stream [where env = example_env and ch = None and q = "''hello''"
        and u = "''u''" and c = "''c''" and chain = "Chain ''system'' ''human''"
        and vh = "[HumanMessage ''hi'', AIMessage ''hello'', HumanMessage ''42'']"
        and p = "''p''" and ns = "[]" and l = "''log''" and s = "''st''"]
    by (simp add: example_direct example_astream example_format example_no_failures)
qed

text \<open>
  Claim C4: in every run of either agent, each yielded chunk is the oldest content
  passed to \<^verbatim>\<open>add_message_chunk\<close> and not yet yielded, so no chunk is yielded before
  it is written; and when the \<^verbatim>\<open>try\<close> body ends without an exception, the contents
  passed to \<^verbatim>\<open>add_message_chunk\<close> are, in call order, the messages of the yielded
  chunks in yield order (hence their concatenations are equal).
\<close>

theorem history_buffer_ordering:
  "write_then_notify [] (trace (DebuggingChatAgent_run env ch q p u c ns l s))
   \<and> write_then_notify [] (trace (CodeChangesChatAgent_run env ch q p u c ns))
   \<and> (raised (DebuggingChatAgent_try env ch q p u c ns l s) = None \<longrightarrow>
        map fst (adds (trace (DebuggingChatAgent_run env ch q p u c ns l s)))
          = map snd (chunks_of (yields (trace (DebuggingChatAgent_run env ch q p u c ns l s)))))
   \<and> (raised (CodeChangesChatAgent_try env ch q p u c ns) = None \<longrightarrow>
        map fst (adds (trace (CodeChangesChatAgent_run env ch q p u c ns)))
          = map snd (chunks_of (yields (trace (CodeChangesChatAgent_run env ch q p u c ns)))))"
  using well_formed_DebuggingChatAgent_try [of env ch q p u c ns l s]
    well_formed_CodeChangesChatAgent_try [of env ch q p u c ns]
  by (simp add: DebuggingChatAgent_run_def CodeChangesChatAgent_run_def well_formed_def
      write_then_notify_handle_exception adds_handle_exception chunks_of_yields_handle_exception)

theorem history_buffer_ordering_witness:
  "raised (DebuggingChatAgent_try example_env None ''hello'' ''p'' ''u'' ''c'' [] ''log'' ''st'')
     = None
   \<and> raised (CodeChangesChatAgent_try example_env None ''hello'' ''p'' ''u'' ''c'' []) = None
   \<and> write_then_notify []
        (trace (DebuggingChatAgent_run example_env None ''hello'' ''p'' ''u'' ''c'' [] ''log'' ''st''))
   \<and> write_then_notify []
        (trace (CodeChangesChatAgent_run example_env None ''hello'' ''p'' ''u'' ''c'' []))
   \<and> map fst (adds (trace
        (DebuggingChatAgent_run example_env None ''hello'' ''p'' ''u'' ''c'' [] ''log'' ''st'')))
     = map snd (chunks_of (yields (trace
        (DebuggingChatAgent_run example_env None ''hello'' ''p'' ''u'' ''c'' [] ''log'' ''st''))))
   \<and> map fst (adds (trace
        (CodeChangesChatAgent_run example_env None ''hello'' ''p'' ''u'' ''c'' [])))
     = map snd (chunks_of (yields (trace
        (CodeChangesChatAgent_run example_env None ''hello'' ''p'' ''u'' ''c'' []))))"
proof -
  have d: "raised (DebuggingChatAgent_try example_env None ''hello'' ''p'' ''u'' ''c'' []
             ''log'' ''st'') = None"
    by (simp add: DebuggingChatAgent_try_def example_direct debugging_direct_branch_def
        stream_and_flush_def) (simp add: example_env_def Let_def)
  have cc: "raised (CodeChangesChatAgent_try example_env None ''hello'' ''p'' ''u'' ''c'' [])
             = None"
    by (simp add: CodeChangesChatAgent_try_def example_direct code_changes_stream_def
        stream_and_flush_def) (simp add: example_env_def Let_def)
  show ?thesis
    using d cc
      history_buffer_ordering [where env = example_env and ch = None and q = "''hello''"
        and p = "''p''" and u = "''u''" and c = "''c''" and ns = "[]" and l = "''log''"
        and s = "''st''"]
    by simp
qed

text \<open>
  Claim C5, on a request whose blast-radius agent is cancelled while it is awaited:
  \<^verbatim>\<open>asyncio.CancelledError\<close> is not an instance of \<^verbatim>\<open>Exception\<close>, so
  \<^verbatim>\<open>except Exception\<close> does not catch it: nothing is yielded and the exception
  leaves \<^verbatim>\<open>run\<close>.
\<close>

theorem runner_cancelled_propagates:
  "load_and_classify cancelled_env ''CODE_CHANGES_AGENT'' None ''why does f crash?'' ''u'' ''c''
     = Inr (Chain ''system'' ''human'',
            [HumanMessage ''hi'', AIMessage ''hello'', HumanMessage ''42''], AGENT_REQUIRED)
   \<and> kickoff_blast_radius_agent cancelled_env ''why does f crash?'' ''p'' [] = Inl CancelledError
   \<and> yields (trace (CodeChangesChatAgent_run cancelled_env None ''why does f crash?'' ''p'' ''u''
        ''c'' [])) = []
   \<and> raised (CodeChangesChatAgent_run cancelled_env None ''why does f crash?'' ''p'' ''u''
        ''c'' []) = Some CancelledError"
proof -
  have k: "kickoff_blast_radius_agent cancelled_env q p ns = Inl CancelledError" for q p ns
    by (simp add: cancelled_env_def)
  show ?thesis
    by (simp add: cancelled_agent k
        CodeChangesChatAgent_run_failure [OF cancelled_agent k])
qed

text \<open>
  Claim C5, amended: when the classifier returns \<^verbatim>\<open>AGENT_REQUIRED\<close> and awaiting the
  tool agent raises an instance \<open>e\<close> of \<^verbatim>\<open>Exception\<close>, the whole run consists of
  one yield, of the error text of \<open>e\<close>: nothing is persisted,
  \<^verbatim>\<open>flush_message_buffer\<close> is not called, and no exception leaves \<^verbatim>\<open>run\<close>. In
  \<^verbatim>\<open>DebuggingChatAgent.run\<close> what awaiting the tool agent raises is such an instance.
  An exception that is not an instance of \<^verbatim>\<open>Exception\<close> is not caught: the run
  yields nothing and raises it; in general a run raises exactly what its \<^verbatim>\<open>try\<close>
  body raises outside \<^verbatim>\<open>Exception\<close>.
\<close>

theorem runner_failure_contained:
  "(load_and_classify env ''CODE_CHANGES_AGENT'' ch q u c = Inr (chain, vh, AGENT_REQUIRED)
      \<and> kickoff_blast_radius_agent env q p ns = Inl e \<and> is_Exception e
    \<longrightarrow> trace (CodeChangesChatAgent_run env ch q p u c ns) = [Yield (ErrorText (str_exn e))]
        \<and> flushes (trace (CodeChangesChatAgent_run env ch q p u c ns)) = 0
        \<and> raised (CodeChangesChatAgent_run env ch q p u c ns) = None)
   \<and> (load_and_classify env ''DEBUGGING_AGENT'' ch q u c = Inr (chain, vh, AGENT_REQUIRED)
      \<and> await (kickoff_debug_rag_agent (runner env) q p
                  (map content (filter isinstance_HumanMessage vh)) ns)
          = (Inl e' :: exn + rag_result)
    \<longrightarrow> is_Exception e'
        \<and> trace (DebuggingChatAgent_run env ch q p u c ns l s) = [Yield (ErrorText (str_exn e'))]
        \<and> flushes (trace (DebuggingChatAgent_run env ch q p u c ns l s)) = 0
        \<and> raised (DebuggingChatAgent_run env ch q p u c ns l s) = None)
   \<and> (load_and_classify env ''CODE_CHANGES_AGENT'' ch q u c = Inr (chain, vh, AGENT_REQUIRED)
      \<and> kickoff_blast_radius_agent env q p ns = Inl e \<and> \<not> is_Exception e
    \<longrightarrow> trace (CodeChangesChatAgent_run env ch q p u c ns) = []
        \<and> raised (CodeChangesChatAgent_run env ch q p u c ns) = Some e)
   \<and> raised (DebuggingChatAgent_run env ch q p u c ns l s)
       = (case raised (DebuggingChatAgent_try env ch q p u c ns l s) of
            None \<Rightarrow> None
          | Some x \<Rightarrow> if is_Exception x then None else Some x)
   \<and> raised (CodeChangesChatAgent_run env ch q p u c ns)
       = (case raised (CodeChangesChatAgent_try env ch q p u c ns) of
            None \<Rightarrow> None
          | Some x \<Rightarrow> if is_Exception x then None else Some x)"
proof (intro conjI impI)
  assume a: "load_and_classify env ''CODE_CHANGES_AGENT'' ch q u c = Inr (chain, vh, AGENT_REQUIRED)
      \<and> kickoff_blast_radius_agent env q p ns = Inl e \<and> is_Exception e"
  then have l: "load_and_classify env ''CODE_CHANGES_AGENT'' ch q u c
                  = Inr (chain, vh, AGENT_REQUIRED)"
    and k: "kickoff_blast_radius_agent env q p ns = Inl e" and i: "is_Exception e"
    by simp_all
  show "trace (CodeChangesChatAgent_run env ch q p u c ns) = [Yield (ErrorText (str_exn e))]"
    using i by (simp add: CodeChangesChatAgent_run_failure(1) [OF l k])
  show "flushes (trace (CodeChangesChatAgent_run env ch q p u c ns)) = 0"
    using i by (simp add: CodeChangesChatAgent_run_failure(1) [OF l k])
  show "raised (CodeChangesChatAgent_run env ch q p u c ns) = None"
    using i by (simp add: CodeChangesChatAgent_run_failure(2) [OF l k])
next
  assume a: "load_and_classify env ''DEBUGGING_AGENT'' ch q u c = Inr (chain, vh, AGENT_REQUIRED)
      \<and> await (kickoff_debug_rag_agent (runner env) q p
                  (map content (filter isinstance_HumanMessage vh)) ns)
          = (Inl e' :: exn + rag_result)"
  then have l: "load_and_classify env ''DEBUGGING_AGENT'' ch q u c
                  = Inr (chain, vh, AGENT_REQUIRED)"
    and e: "e' = TypeError await_async_generator_error"
    by (simp_all add: await_kickoff_debug_rag_agent)
  show "is_Exception e'"
    by (simp add: e)
  show "trace (DebuggingChatAgent_run env ch q p u c ns l s) = [Yield (ErrorText (str_exn e'))]"
    by (simp add: e DebuggingChatAgent_run_agent_required(1) [OF l])
  show "flushes (trace (DebuggingChatAgent_run env ch q p u c ns l s)) = 0"
    by (simp add: DebuggingChatAgent_run_agent_required(1) [OF l])
  show "raised (DebuggingChatAgent_run env ch q p u c ns l s) = None"
    by (rule DebuggingChatAgent_run_agent_required(2) [OF l])
next
  assume a: "load_and_classify env ''CODE_CHANGES_AGENT'' ch q u c = Inr (chain, vh, AGENT_REQUIRED)
      \<and> kickoff_blast_radius_agent env q p ns = Inl e \<and> \<not> is_Exception e"
  then have l: "load_and_classify env ''CODE_CHANGES_AGENT'' ch q u c
                  = Inr (chain, vh, AGENT_REQUIRED)"
    and k: "kickoff_blast_radius_agent env q p ns = Inl e" and i: "\<not> is_Exception e"
    by simp_all
  show "trace (CodeChangesChatAgent_run env ch q p u c ns) = []"
    using i by (simp add: CodeChangesChatAgent_run_failure(1) [OF l k])
  show "raised (CodeChangesChatAgent_run env ch q p u c ns) = Some e"
    using i by (simp add: CodeChangesChatAgent_run_failure(2) [OF l k])
next
  show "raised (DebuggingChatAgent_run env ch q p u c ns l s)
       = (case raised (DebuggingChatAgent_try env ch q p u c ns l s) of
            None \<Rightarrow> None
          | Some x \<Rightarrow> if is_Exception x then None else Some x)"
    by (simp add: DebuggingChatAgent_run_def raised_handle_exception)
next
  show "raised (CodeChangesChatAgent_run env ch q p u c ns)
       = (case raised (CodeChangesChatAgent_try env ch q p u c ns) of
            None \<Rightarrow> None
          | Some x \<Rightarrow> if is_Exception x then None else Some x)"
    by (simp add: CodeChangesChatAgent_run_def raised_handle_exception)
qed

theorem runner_failure_contained_witness:
  "load_and_classify failing_env ''CODE_CHANGES_AGENT'' None ''why does f crash?'' ''u'' ''c''
     = Inr (Chain ''system'' ''human'',
            [HumanMessage ''hi'', AIMessage ''hello'', HumanMessage ''42''], AGENT_REQUIRED)
   \<and> kickoff_blast_radius_agent failing_env ''why does f crash?'' ''p'' [] = Inl (Raised ''boom'')
   \<and> is_Exception (Raised ''boom'')
   \<and> trace (CodeChangesChatAgent_run failing_env None ''why does f crash?'' ''p'' ''u'' ''c'' [])
     = [Yield (ErrorText ''boom'')]
   \<and> raised (CodeChangesChatAgent_run failing_env None ''why does f crash?'' ''p'' ''u'' ''c'' [])
     = None
   \<and> load_and_classify example_env ''DEBUGGING_AGENT'' None ''why does f crash?'' ''u'' ''c''
     = Inr (Chain ''system'' ''human'',
            [HumanMessage ''hi'', AIMessage ''hello'', HumanMessage ''42''], AGENT_REQUIRED)
   \<and> await (kickoff_debug_rag_agent (runner example_env) ''why does f crash?'' ''p''
               (map content (filter isinstance_HumanMessage
                  [HumanMessage ''hi'', AIMessage ''hello'', HumanMessage ''42''])) [])
     = (Inl (TypeError await_async_generator_error) :: exn + rag_result)
   \<and> trace (DebuggingChatAgent_run example_env None ''why does f crash?'' ''p'' ''u'' ''c'' []
        ''log'' ''st'') = [Yield (ErrorText await_async_generator_error)]
   \<and> raised (DebuggingChatAgent_run example_env None ''why does f crash?'' ''p'' ''u'' ''c'' []
        ''log'' ''st'') = None
   \<and> load_and_classify cancelled_env ''CODE_CHANGES_AGENT'' None ''why does f crash?'' ''u'' ''c''
     = Inr (Chain ''system'' ''human'',
            [HumanMessage ''hi'', AIMessage ''hello'', HumanMessage ''42''], AGENT_REQUIRED)
   \<and> kickoff_blast_radius_agent cancelled_env ''why does f crash?'' ''p'' [] = Inl CancelledError
   \<and> \<not> is_Exception CancelledError
   \<and> trace (CodeChangesChatAgent_run cancelled_env None ''why does f crash?'' ''p'' ''u''
        ''c'' []) = []
   \<and> raised (CodeChangesChatAgent_run cancelled_env None ''why does f crash?'' ''p'' ''u''
        ''c'' []) = Some CancelledError"
proof -
  have k1: "kickoff_blast_radius_agent failing_env q p ns = Inl (Raised ''boom'')" for q p ns
    by (simp add: failing_env_def)
  have k2: "kickoff_blast_radius_agent cancelled_env q p ns = Inl CancelledError" for q p ns
    by (simp add: cancelled_env_def)
  show ?thesis
    using runner_failure_contained [where env = failing_env and ch = None
        and q = "''why does f crash?''" and u = "''u''" and c = "''c''"
        and chain = "Chain ''system'' ''human''"
        and vh = "[HumanMessage ''hi'', AIMessage ''hello'', HumanMessage ''42'']"
        and p = "''p''" and ns = "[]" and l = "''log''" and s = "''st''"
        and e = "Raised ''boom''" and e' = "TypeError await_async_generator_error"]
      runner_failure_contained [where env = example_env and ch = None
        and q = "''why does f crash?''" and u = "''u''" and c = "''c''"
        and chain = "Chain ''system'' ''human''"
        and vh = "[HumanMessage ''hi'', AIMessage ''hello'', HumanMessage ''42'']"
        and p = "''p''" and ns = "[]" and l = "''log''" and s = "''st''"
        and e = "Raised ''boom''" and e' = "TypeError await_async_generator_error"]
      runner_failure_contained [where env = cancelled_env and ch = None
        and q = "''why does f crash?''" and u = "''u''" and c = "''c''"
        and chain = "Chain ''system'' ''human''"
        and vh = "[HumanMessage ''hi'', AIMessage ''hello'', HumanMessage ''42'']"
        and p = "''p''" and ns = "[]" and l = "''log''" and s = "''st''"
        and e = "CancelledError" and e' = "TypeError await_async_generator_error"]
    by (simp add: failing_agent example_agent cancelled_agent k1 k2
        await_kickoff_debug_rag_agent)
qed

text \<open>
  Claim C6, evaluated on a request to \<^verbatim>\<open>DebuggingChatAgent.run\<close> that the classifier
  sends to the tool agent. The run yields no chunk with formatted citations: awaiting the
  async generator raises, and the only item is the error text. The statements that
  follow the \<^verbatim>\<open>await\<close>, given a structured result citing \<open>src/a.py\<close>, persist and
  yield one chunk with the citation \<open>src/a.py\<close> as it is, while
  \<^verbatim>\<open>format_citations\<close> turns it into \<open>a.py\<close>; the sibling
  \<^verbatim>\<open>CodeChangesChatAgent.run\<close>, on the same request, persists and yields \<open>a.py\<close>.
\<close>

theorem debugging_agent_required_no_formatted_chunk:
  "load_and_classify example_env ''DEBUGGING_AGENT'' None ''why does f crash?'' ''u'' ''c''
     = Inr (Chain ''system'' ''human'',
            [HumanMessage ''hi'', AIMessage ''hello'', HumanMessage ''42''], AGENT_REQUIRED)
   \<and> trace (DebuggingChatAgent_run example_env None ''why does f crash?'' ''p'' ''u'' ''c'' []
        ''log'' ''st'') = [Yield (ErrorText await_async_generator_error)]
   \<and> debugging_agent_result example_env ''c''
        \<lparr>pydantic = Some example_rag_response, raw = ''raw''\<rparr>
     = ([Nodes [example_node]], [''src/a.py''],
        [AddMessageChunk ''c'' (Nodes [example_node]) (Some [''src/a.py'']),
         FlushMessageBuffer ''c'',
         Yield (Chunk [''src/a.py''] (Nodes [example_node]))],
        None)
   \<and> format_citations example_env [''src/a.py''] = [''a.py'']
   \<and> adds (trace (CodeChangesChatAgent_run example_env None ''why does f crash?'' ''p'' ''u''
        ''c'' []))
     = [(Text ''Hel'', Some [''a.py'']), (Text ''lo'', Some [''a.py''])]
   \<and> chunks_of (yields (trace (CodeChangesChatAgent_run example_env None ''why does f crash?''
        ''p'' ''u'' ''c'' [])))
     = [([''a.py''], Text ''Hel''), ([''a.py''], Text ''lo'')]"
proof -
  have d: "trace (DebuggingChatAgent_run example_env None ''why does f crash?'' ''p'' ''u'' ''c''
             [] ''log'' ''st'') = [Yield (ErrorText await_async_generator_error)]"
    by (rule DebuggingChatAgent_run_agent_required(1) [OF example_agent])
  have r: "debugging_agent_result example_env ''c''
        \<lparr>pydantic = Some example_rag_response, raw = ''raw''\<rparr>
     = ([Nodes [example_node]], [''src/a.py''],
        [AddMessageChunk ''c'' (Nodes [example_node]) (Some [''src/a.py'']),
         FlushMessageBuffer ''c'',
         Yield (Chunk [''src/a.py''] (Nodes [example_node]))],
        None)"
    by (simp add: debugging_agent_result_def Let_def example_no_failures
        example_rag_response_def)
  have a: "\<forall>m k. add_message_chunk_raises example_env m k = None"
    by (simp add: example_no_failures)
  have b: "blast_pydantic \<lparr>blast_pydantic = Some example_blast_response, blast_raw = ''raw''\<rparr>
             = Some example_blast_response"
    by simp
  have cc: "adds (trace (CodeChangesChatAgent_run example_env None ''why does f crash?'' ''p''
              ''u'' ''c'' []))
     = [(Text ''Hel'', Some [''a.py'']), (Text ''lo'', Some [''a.py''])]"
    by (simp add: CodeChangesChatAgent_run_structured(2)
          [OF example_agent example_kickoff_blast b a] example_astream)
      (simp add: example_blast_response_def example_format)
  have cy: "chunks_of (yields (trace (CodeChangesChatAgent_run example_env None
              ''why does f crash?'' ''p'' ''u'' ''c'' [])))
     = [([''a.py''], Text ''Hel''), ([''a.py''], Text ''lo'')]"
    by (simp add: CodeChangesChatAgent_run_structured(1)
          [OF example_agent example_kickoff_blast b a] example_astream)
      (simp add: example_blast_response_def example_format)
  show ?thesis
    by (intro conjI example_agent d r example_format(1) cc cy)
qed

text \<open>
  Claim C10: the items yielded by a run are the items yielded by its \<^verbatim>\<open>try\<close> body,
  all of them chunks with a string as message, followed by one error text exactly when
  the body ended with an instance of \<^verbatim>\<open>Exception\<close>. The text of a chunk parses as a
  JSON object whose two members are the chunk's citations and message; the error item is
  the bare text \<^verbatim>\<open>An error occurred: \<close> followed by the exception text, which does
  not parse, does not even start a JSON object, and differs from the text of every
  chunk.
\<close>

theorem error_chunk_only_non_json_item:
  "yields (trace (DebuggingChatAgent_run env ch q p u c ns l s))
     = yields (trace (DebuggingChatAgent_try env ch q p u c ns l s))
       @ (case raised (DebuggingChatAgent_try env ch q p u c ns l s) of
            None \<Rightarrow> []
          | Some e \<Rightarrow> if is_Exception e then [ErrorText (str_exn e)] else [])
   \<and> list_all is_text_chunk (yields (trace (DebuggingChatAgent_try env ch q p u c ns l s)))
   \<and> yields (trace (CodeChangesChatAgent_run env ch q p u c ns))
     = yields (trace (CodeChangesChatAgent_try env ch q p u c ns))
       @ (case raised (CodeChangesChatAgent_try env ch q p u c ns) of
            None \<Rightarrow> []
          | Some e \<Rightarrow> if is_Exception e then [ErrorText (str_exn e)] else [])
   \<and> list_all is_text_chunk (yields (trace (CodeChangesChatAgent_try env ch q p u c ns)))
   \<and> wire (ErrorText t) = ''An error occurred: '' @ t
   \<and> decode_chunk (wire (ErrorText t)) = None
   \<and> \<not> starts_json_object (wire (ErrorText t))
   \<and> decode_chunk (wire (Chunk cits m)) = Some (cits, m)
   \<and> starts_json_object (wire (Chunk cits m))
   \<and> wire (Chunk cits m) \<noteq> wire (ErrorText t)"
proof -
  have d: "yields (trace (DebuggingChatAgent_run env ch q p u c ns l s))
     = yields (trace (DebuggingChatAgent_try env ch q p u c ns l s))
       @ (case raised (DebuggingChatAgent_try env ch q p u c ns l s) of
            None \<Rightarrow> []
          | Some e \<Rightarrow> if is_Exception e then [ErrorText (str_exn e)] else [])"
    by (simp add: DebuggingChatAgent_run_def trace_handle_exception yields_append
        split: option.splits)
  have cc: "yields (trace (CodeChangesChatAgent_run env ch q p u c ns))
     = yields (trace (CodeChangesChatAgent_try env ch q p u c ns))
       @ (case raised (CodeChangesChatAgent_try env ch q p u c ns) of
            None \<Rightarrow> []
          | Some e \<Rightarrow> if is_Exception e then [ErrorText (str_exn e)] else [])"
    by (simp add: CodeChangesChatAgent_run_def trace_handle_exception yields_append
        split: option.splits)
  have w1: "wire (ErrorText t) = ''An error occurred: '' @ t"
    by simp
  have w2: "decode_chunk (wire (ErrorText t)) = None"
    using decode_chunk_error_text [of t] by simp
  have w3: "\<not> starts_json_object (wire (ErrorText t))"
    using not_starts_json_object_error [of t] by simp
  have w4: "decode_chunk (wire (Chunk cits m)) = Some (cits, m)"
    by (simp add: decode_chunk_json_dumps_chunk)
  have w5: "starts_json_object (wire (Chunk cits m))"
    by (simp add: starts_json_object_chunk)
  have w6: "wire (Chunk cits m) \<noteq> wire (ErrorText t)"
    by (simp add: json_dumps_chunk_def)
  show ?thesis
    by (intro conjI d cc is_text_chunk_DebuggingChatAgent_try
        is_text_chunk_CodeChangesChatAgent_try w1 w2 w3 w4 w5 w6)
qed

text \<open>
  The theorem on the request whose second chunk cannot be persisted: the first item
  parses as the chunk \<open>Hel\<close> with no citations, the second is the error text and does
  not parse.
\<close>

theorem error_chunk_only_non_json_item_example:
  "yields (trace (CodeChangesChatAgent_run failing_history_env None ''hello'' ''p'' ''u''
        ''c'' []))
     = [Chunk [] (Text ''Hel''), ErrorText ''db'']
   \<and> map (decode_chunk \<circ> wire) [Chunk [] (Text ''Hel''), ErrorText ''db'']
     = [Some ([], Text ''Hel''), None]"
proof -
  have y: "yields (trace (CodeChangesChatAgent_run failing_history_env None ''hello'' ''p''
             ''u'' ''c'' [])) = [Chunk [] (Text ''Hel''), ErrorText ''db'']"
    by (simp add: failing_history_direct example_run_defs example_astream)
      (simp add: failing_history_env_def example_env_def)
  note t = error_chunk_only_non_json_item [where cits = "[]" and m = "Text ''Hel''"
        and t = "''db''" and env = failing_history_env and ch = None and q = "''hello''"
        and p = "''p''" and u = "''u''" and c = "''c''" and ns = "[]" and l = "''log''"
        and s = "''st''"]
  from t have a: "decode_chunk (wire (Chunk [] (Text ''Hel''))) = Some ([], Text ''Hel'')"
    by blast
  from t have b: "decode_chunk (wire (ErrorText ''db'')) = None"
    by blast
  show ?thesis
    using y a b by (simp del: wire.simps)
qed

end
